theory Spec2Isabelle
  imports Complex_Main "HOL-Library.Multiset" "HOL-Library.List_Lexorder" "HOL-Library.Char_ord"
begin

section \<open>Conventions of the embedding\<close>

text \<open>
  The factor engine is Python. Its \<open>float\<close> values are modelled as real numbers:
  rounding and overflow are not part of the model, so "equal" below is equality of
  reals. A Python \<open>date\<close> is its proleptic Gregorian ordinal
  (\<open>date.toordinal()\<close>), so comparison of dates is comparison of integers and
  \<open>day + timedelta(days=1)\<close> is \<open>day + 1\<close>.

  Every exception the code can raise on the modelled paths is a value of
  \<open>error\<close>, and a function that can raise returns \<open>error + 'a\<close> with
  \<open>Inl\<close> for the exception. \<open>NonFiniteFloat\<close> is not an exception: numpy
  and pandas return \<open>inf\<close> or \<open>nan\<close> where it appears (a division by zero on
  \<open>numpy.float64\<close>, a standard deviation of too few values), values that the reals
  do not have, and the model stops there instead of continuing with a made-up number.
\<close>

datatype error =
    ValueError string
  | ZeroDivisionError
  | IndexError
  | KeyError string
  | NoResultFound
  | MultipleResultsFound
  | IntegrityError
  | NonFiniteFloat

type_synonym date = int

text \<open>Division of two Python floats raises on a zero divisor; numpy's does not.\<close>

definition py_div :: "real \<Rightarrow> real \<Rightarrow> error + real" where
  "py_div a b = (if b = 0 then Inl ZeroDivisionError else Inr (a / b))"

definition np_div :: "real \<Rightarrow> real \<Rightarrow> error + real" where
  "np_div a b = (if b = 0 then Inl NonFiniteFloat else Inr (a / b))"

text \<open>Elementwise numpy division of two arrays of the same length.\<close>

fun np_div_list :: "real list \<Rightarrow> real list \<Rightarrow> error + real list" where
  "np_div_list (a # as) (b # bs) =
     (case np_div a b of
        Inl e \<Rightarrow> Inl e
      | Inr q \<Rightarrow> (case np_div_list as bs of Inl e \<Rightarrow> Inl e | Inr qs \<Rightarrow> Inr (q # qs)))"
| "np_div_list _ _ = Inr []"

text \<open>
  \<open>DataFrame.iloc[i]\<close> and list subscripts: position \<open>i\<close> from the front when
  \<open>i\<close> is not negative, position \<open>len + i\<close> when it is, \<open>IndexError\<close> when
  that position does not exist.
\<close>

definition iloc :: "'a list \<Rightarrow> int \<Rightarrow> error + 'a" where
  "iloc xs i =
     (if 0 \<le> i \<and> i < int (length xs) then Inr (xs ! nat i)
      else if i < 0 \<and> - int (length xs) \<le> i then Inr (xs ! nat (int (length xs) + i))
      else Inl IndexError)"

text \<open>A slice \<open>xs[:n]\<close>: a negative bound counts from the end.\<close>

definition slice_to :: "'a list \<Rightarrow> int \<Rightarrow> 'a list" where
  "slice_to xs n = (if n < 0 then take (nat (int (length xs) + n)) xs else take (nat n) xs)"

text \<open>\<open>dict[key]\<close> and \<open>dict.get(key, default)\<close> on a dictionary kept as an association list.\<close>

definition dict_item :: "(string \<times> 'v) list \<Rightarrow> string \<Rightarrow> error + 'v" where
  "dict_item d k = (case map_of d k of None \<Rightarrow> Inl (KeyError k) | Some v \<Rightarrow> Inr v)"

definition dict_get :: "(string \<times> 'v) list \<Rightarrow> string \<Rightarrow> 'v \<Rightarrow> 'v" where
  "dict_get d k dflt = (case map_of d k of None \<Rightarrow> dflt | Some v \<Rightarrow> v)"

text \<open>
  \<open>list.sort(key=..., reverse=True)\<close> is a stable sort into descending key order:
  elements with equal keys keep their order. \<open>sort_key\<close> is a stable insertion sort
  into ascending order, so sorting on the negated key is the same list.
\<close>

definition sort_desc :: "('a \<Rightarrow> real) \<Rightarrow> 'a list \<Rightarrow> 'a list" where
  "sort_desc key xs = sort_key (\<lambda>x. - key x) xs"


section \<open>Configuration (config/loader.py)\<close>

record StrategyConfig =
  factor_weights :: "(string \<times> real) list"
  execution_timing :: "(string \<times> real) list"
  liquidity_filters :: "(string \<times> real) list"

text \<open>The defaults of \<open>StrategyConfig\<close>, numeric entries only.\<close>

definition default_factor_weights :: "(string \<times> real) list" where
  "default_factor_weights =
     [(''momentum_12_1'', 0.4), (''momentum_6_1'', 0.4), (''realized_vol'', - 0.2)]"

definition default_strategy :: StrategyConfig where
  "default_strategy =
     \<lparr> factor_weights = default_factor_weights,
       execution_timing = [(''transaction_cost_bps'', 20), (''slippage_bps'', 5)],
       liquidity_filters =
         [(''median_traded_value_clp'', 20000000), (''lookback_days'', 90),
          (''max_weight_pct_of_adv'', 5)] \<rparr>"


section \<open>Factor engine (factors/engine.py)\<close>

text \<open>The dataclass field \<open>method\<close> is \<open>factor_method\<close> here.\<close>

record FactorDefinition =
  name :: string
  lookback_days :: int
  factor_method :: string

definition definitions :: "FactorDefinition list" where
  "definitions =
     [ \<lparr> name = ''momentum_12_1'', lookback_days = 252, factor_method = ''momentum'' \<rparr>,
       \<lparr> name = ''momentum_6_1'', lookback_days = 126, factor_method = ''momentum'' \<rparr>,
       \<lparr> name = ''realized_vol'', lookback_days = 126, factor_method = ''volatility'' \<rparr>,
       \<lparr> name = ''max_drawdown'', lookback_days = 252, factor_method = ''max_drawdown'' \<rparr> ]"

text \<open>
  The price window \<open>df\<close> handed to the factor methods: the \<open>adj_close\<close> column
  of the frame, ascending by date. The methods read no other column.
\<close>

type_synonym window = "real list"

text \<open>\<open>FactorEngine._momentum\<close>. The two prices are \<open>numpy.float64\<close>.\<close>

definition momentum :: "window \<Rightarrow> int \<Rightarrow> error + real option" where
  "momentum df lookback =
     (if int (length df) < lookback then Inr None
      else
        case iloc df (- lookback) of
          Inl e \<Rightarrow> Inl e
        | Inr start_price \<Rightarrow>
            (case iloc df (- 1) of
               Inl e \<Rightarrow> Inl e
             | Inr end_price \<Rightarrow>
                 (case np_div end_price start_price of
                    Inl e \<Rightarrow> Inl e
                  | Inr q \<Rightarrow> Inr (Some (q - 1)))))"

text \<open>
  \<open>Series.pct_change().dropna()\<close>: the simple returns of consecutive prices; the
  first entry, which has no predecessor, is the one dropped.
\<close>

fun pct_change :: "real list \<Rightarrow> error + real list" where
  "pct_change (a # b # xs) =
     (case np_div b a of
        Inl e \<Rightarrow> Inl e
      | Inr q \<Rightarrow> (case pct_change (b # xs) of Inl e \<Rightarrow> Inl e | Inr rs \<Rightarrow> Inr ((q - 1) # rs)))"
| "pct_change _ = Inr []"

text \<open>\<open>Series.tail(n)\<close>: the last \<open>n\<close> entries, or all but the first \<open>-n\<close>.\<close>

definition tail :: "'a list \<Rightarrow> int \<Rightarrow> 'a list" where
  "tail xs n = (if n < 0 then drop (nat (- n)) xs else drop (length xs - nat n) xs)"

definition mean :: "real list \<Rightarrow> real" where
  "mean xs = sum_list xs / real (length xs)"

text \<open>\<open>Series.std()\<close> of pandas divides by \<open>n - 1\<close> and is \<open>nan\<close> below two values.\<close>

definition sample_std :: "real list \<Rightarrow> error + real" where
  "sample_std xs =
     (if length xs < 2 then Inl NonFiniteFloat
      else Inr (sqrt (sum_list (map (\<lambda>x. (x - mean xs)\<^sup>2) xs) / real (length xs - 1))))"

text \<open>\<open>ndarray.std()\<close> of numpy divides by \<open>n\<close>.\<close>

definition population_std :: "real list \<Rightarrow> real" where
  "population_std xs = sqrt (sum_list (map (\<lambda>x. (x - mean xs)\<^sup>2) xs) / real (length xs))"

definition realized_vol :: "window \<Rightarrow> int \<Rightarrow> error + real option" where
  "realized_vol df lookback =
     (if int (length df) < lookback then Inr None
      else
        case pct_change df of
          Inl e \<Rightarrow> Inl e
        | Inr rs \<Rightarrow>
            (case sample_std (tail rs lookback) of
               Inl e \<Rightarrow> Inl e
             | Inr s \<Rightarrow> Inr (Some (s * sqrt 252))))"

text \<open>\<open>cummax\<close> and \<open>np.maximum.accumulate\<close>: the running maximum.\<close>

fun cummax_from :: "real \<Rightarrow> real list \<Rightarrow> real list" where
  "cummax_from m [] = []"
| "cummax_from m (x # xs) = max m x # cummax_from (max m x) xs"

definition cummax :: "real list \<Rightarrow> real list" where
  "cummax xs = (case xs of [] \<Rightarrow> [] | x # ys \<Rightarrow> x # cummax_from x ys)"

definition list_min :: "real list \<Rightarrow> real" where
  "list_min xs = fold min (tl xs) (hd xs)"

text \<open>
  \<open>FactorEngine._max_drawdown\<close> takes no lookback: it runs over the whole window.
  \<open>compute\<close> skips a symbol whose frame is empty, so the method sees a non-empty
  window; on an empty one pandas' \<open>min\<close> is \<open>nan\<close>.
\<close>

definition max_drawdown_factor :: "window \<Rightarrow> error + real option" where
  "max_drawdown_factor df =
     (if df = [] then Inl NonFiniteFloat
      else
        case np_div_list df (cummax df) of
          Inl e \<Rightarrow> Inl e
        | Inr qs \<Rightarrow> Inr (Some (list_min (map (\<lambda>q. q - 1) qs))))"

definition compute_factor :: "window \<Rightarrow> FactorDefinition \<Rightarrow> error + real option" where
  "compute_factor df defn =
     (if factor_method defn = ''momentum'' then momentum df (lookback_days defn)
      else if factor_method defn = ''volatility'' then realized_vol df (lookback_days defn)
      else if factor_method defn = ''max_drawdown'' then max_drawdown_factor df
      else Inr None)"


section \<open>Performance summary (backtest/performance.py)\<close>

record PerformanceSummary =
  cagr :: real
  volatility :: real
  max_drawdown :: real
  periods :: int

text \<open>\<open>np.diff\<close>: the differences of consecutive entries.\<close>

fun np_diff :: "real list \<Rightarrow> real list" where
  "np_diff (a # b # xs) = (b - a) # np_diff (b # xs)"
| "np_diff _ = []"

text \<open>\<open>np.sqrt\<close> of the integer \<open>periods_per_year\<close>: \<open>nan\<close> below zero.\<close>

definition np_sqrt :: "int \<Rightarrow> error + real" where
  "np_sqrt k = (if k < 0 then Inl NonFiniteFloat else Inr (sqrt (real_of_int k)))"

text \<open>
  \<open>compute_summary\<close>. \<open>equity_curve\<close> is a list of Python floats, so
  \<open>equity_curve[-1] / equity_curve[0]\<close> raises on a zero first point, and
  \<open>... / periods_per_year\<close> raises on zero periods per year; the array expressions are
  numpy's. The statements are kept in the order of the source.
\<close>

definition compute_summary :: "real list \<Rightarrow> int \<Rightarrow> error + PerformanceSummary" where
  "compute_summary equity_curve periods_per_year =
     (if equity_curve = [] then
        Inr \<lparr> cagr = 0, volatility = 0, max_drawdown = 0, periods = 0 \<rparr>
      else
        case np_div_list (np_diff equity_curve) (butlast equity_curve) of
          Inl e \<Rightarrow> Inl e
        | Inr returns \<Rightarrow>
        (case py_div (last equity_curve) (hd equity_curve) of
          Inl e \<Rightarrow> Inl e
        | Inr compounded \<Rightarrow>
        (case py_div (real (max (length equity_curve - 1) 1)) (real_of_int periods_per_year) of
          Inl e \<Rightarrow> Inl e
        | Inr years \<Rightarrow>
        (case (if returns \<noteq> [] then
                 (case np_sqrt periods_per_year of
                    Inl e \<Rightarrow> Inl e
                  | Inr s \<Rightarrow> Inr (population_std returns * s))
               else Inr 0) of
          Inl e \<Rightarrow> Inl e
        | Inr vol \<Rightarrow>
        (case np_div_list equity_curve (cummax equity_curve) of
          Inl e \<Rightarrow> Inl e
        | Inr qs \<Rightarrow>
            Inr \<lparr> cagr = (if compounded > 0 then compounded powr (1 / years) - 1 else 0),
                  volatility = vol,
                  max_drawdown = list_min (map (\<lambda>q. q - 1) qs),
                  periods = int (length equity_curve) \<rparr>)))))"


section \<open>Persistence (db/models.py, db/session.py)\<close>

text \<open>
  The tables the pipeline reads and writes, each a list of rows in insertion order,
  which is the order of the autoincrement \<open>id\<close>. Only the columns the modelled code
  reads or writes are kept; row fields carry a prefix where two tables share a column
  name.

  The database is SQLite. A query without \<open>ORDER BY\<close> is answered in the order of
  the index SQLite scans for it, not in insertion order: the unique index on
  \<open>symbols.ticker\<close> for the active symbols, the unique index
  (\<open>symbol_id\<close>, \<open>run_id\<close>, \<open>factor_name\<close>, \<open>value_date\<close>) for a factor
  value, and the unique index (\<open>run_id\<close>, \<open>symbol_id\<close>, \<open>as_of_date\<close>) for the
  cached signals. Text compares bytewise, which is the lexicographic order on
  \<open>string\<close>. The sorts below are stable, and the unique keys leave no ties.
\<close>

record Symbol =
  sym_id :: int
  sym_ticker :: string

record UniverseMembership =
  um_symbol_id :: int
  um_start_date :: date
  um_end_date :: "date option"

record PriceAdjusted =
  pa_symbol_id :: int
  price_date :: date
  adj_close :: real

record FactorValue =
  fv_symbol_id :: int
  fv_run_id :: string
  factor_name :: string
  fv_value_date :: date
  fv_value :: real

record LiquidityMetric =
  lm_symbol_id :: int
  lm_run_id :: string
  median_traded_value_clp :: real

record SignalRecord =
  sr_run_id :: string
  sr_symbol_id :: int
  sr_as_of_date :: date
  sr_score :: real
  sr_liquidity :: real

record PortfolioPositionRecord =
  pp_run_id :: string
  pp_symbol_id :: int
  pp_rebalance_date :: date
  pp_weight :: real
  pp_liquidity_cap :: real

record Database =
  symbols :: "Symbol list"
  universe_membership :: "UniverseMembership list"
  prices_adjusted :: "PriceAdjusted list"
  factor_values :: "FactorValue list"
  liquidity_metrics :: "LiquidityMetric list"
  signals :: "SignalRecord list"
  portfolio_positions :: "PortfolioPositionRecord list"

text \<open>\<open>RunContext\<close>: the two fields the pipeline reads.\<close>

record RunContext =
  run_id :: string
  as_of_date :: date

text \<open>\<open>Query.one()\<close> and \<open>Query.first()\<close>.\<close>

definition one :: "'a list \<Rightarrow> error + 'a" where
  "one rows =
     (case rows of [] \<Rightarrow> Inl NoResultFound | [r] \<Rightarrow> Inr r | _ # _ # _ \<Rightarrow> Inl MultipleResultsFound)"

definition first :: "'a list \<Rightarrow> 'a option" where
  "first rows = (case rows of [] \<Rightarrow> None | r # _ \<Rightarrow> Some r)"

text \<open>
  The schema's constraints that the proofs below rely on: \<open>symbols.id\<close> is the
  primary key, and \<open>signals.symbol_id\<close> is a foreign key into \<open>symbols\<close>.
\<close>

definition schema_ok :: "Database \<Rightarrow> bool" where
  "schema_ok db \<longleftrightarrow>
     distinct (map sym_id (symbols db)) \<and>
     list_all (\<lambda>r. sr_symbol_id r \<in> sym_id ` set (symbols db)) (signals db)"

text \<open>
  \<open>get_active_symbols\<close> (universe/query.py): the distinct symbols with a membership
  interval that contains the date, in the order of their tickers.
\<close>

definition get_active_symbols :: "Database \<Rightarrow> date \<Rightarrow> Symbol list" where
  "get_active_symbols db as_of =
     sort_key sym_ticker
       (filter
          (\<lambda>s. list_ex
             (\<lambda>m. um_symbol_id m = sym_id s \<and> um_start_date m \<le> as_of \<and>
                  (case um_end_date m of None \<Rightarrow> True | Some e \<Rightarrow> as_of \<le> e))
             (universe_membership db))
          (symbols db))"


section \<open>Signal generator (signals/generator.py)\<close>

record Signal =
  ticker :: string
  score :: real
  liquidity :: real

text \<open>\<open>_latest_liquidity\<close>: the matching metric with the greatest id.\<close>

definition latest_liquidity :: "Database \<Rightarrow> RunContext \<Rightarrow> int \<Rightarrow> real option" where
  "latest_liquidity db run symbol_id =
     map_option median_traded_value_clp
       (first (rev (filter (\<lambda>m. lm_symbol_id m = symbol_id \<and> lm_run_id m = run_id run)
                      (liquidity_metrics db))))"

text \<open>
  \<open>_get_factor\<close>: the query filters on symbol, run and factor name, not on the date,
  and \<open>first()\<close> takes the matching row with the earliest \<open>value_date\<close>.
\<close>

definition get_factor :: "Database \<Rightarrow> RunContext \<Rightarrow> int \<Rightarrow> string \<Rightarrow> real option" where
  "get_factor db run symbol_id nm =
     map_option fv_value
       (first (sort_key fv_value_date
                 (filter (\<lambda>f. fv_symbol_id f = symbol_id \<and> fv_run_id f = run_id run \<and>
                               factor_name f = nm)
                    (factor_values db))))"

definition passes_liquidity :: "StrategyConfig \<Rightarrow> real option \<Rightarrow> error + bool" where
  "passes_liquidity cfg liq =
     (case liq of
        None \<Rightarrow> Inr False
      | Some l \<Rightarrow>
          (case dict_item (liquidity_filters cfg) ''median_traded_value_clp'' of
             Inl e \<Rightarrow> Inl e
           | Inr threshold \<Rightarrow> Inr (threshold \<le> l)))"

definition compose_score :: "StrategyConfig \<Rightarrow> (string \<times> real) list \<Rightarrow> real" where
  "compose_score cfg factors =
     fold (\<lambda>(nm, w) sc. sc + w * dict_get factors nm 0) (factor_weights cfg) 0"

text \<open>The inner loop over the configured factor names: \<open>None\<close> is \<open>missing = True\<close>.\<close>

fun collect_factors :: "Database \<Rightarrow> RunContext \<Rightarrow> int \<Rightarrow> string list \<Rightarrow> (string \<times> real) list option" where
  "collect_factors db run symbol_id [] = Some []"
| "collect_factors db run symbol_id (nm # nms) =
     (case get_factor db run symbol_id nm of
        None \<Rightarrow> None
      | Some v \<Rightarrow> map_option ((#) (nm, v)) (collect_factors db run symbol_id nms))"

text \<open>The loop over the active symbols, with the set \<open>seen_symbols\<close> as a list of ids.\<close>

fun signal_loop ::
  "StrategyConfig \<Rightarrow> RunContext \<Rightarrow> Database \<Rightarrow> Symbol list \<Rightarrow> int list \<Rightarrow> error + Signal list" where
  "signal_loop cfg run db [] seen_symbols = Inr []"
| "signal_loop cfg run db (symbol # rest) seen_symbols =
     (if sym_id symbol \<in> set seen_symbols then signal_loop cfg run db rest seen_symbols
      else
        case passes_liquidity cfg (latest_liquidity db run (sym_id symbol)) of
          Inl e \<Rightarrow> Inl e
        | Inr False \<Rightarrow> signal_loop cfg run db rest (sym_id symbol # seen_symbols)
        | Inr True \<Rightarrow>
            (case collect_factors db run (sym_id symbol) (map fst (factor_weights cfg)) of
               None \<Rightarrow> signal_loop cfg run db rest (sym_id symbol # seen_symbols)
             | Some factor_vals \<Rightarrow>
                 (case signal_loop cfg run db rest (sym_id symbol # seen_symbols) of
                    Inl e \<Rightarrow> Inl e
                  | Inr sigs \<Rightarrow>
                      Inr (\<lparr> ticker = sym_ticker symbol,
                             score = compose_score cfg factor_vals,
                             liquidity =
                               (case latest_liquidity db run (sym_id symbol) of
                                  None \<Rightarrow> 0 | Some l \<Rightarrow> l) \<rparr> # sigs))))"

text \<open>
  \<open>_persist_signals\<close>: one row per signal, keyed by the run's own
  \<open>as_of_date\<close>. The rows reach the table when the session commits, and the commit
  fails on a second row for one (run, symbol, date): the table, which satisfies its
  unique key before, must satisfy it after.
\<close>

fun persist_signals :: "RunContext \<Rightarrow> Database \<Rightarrow> Signal list \<Rightarrow> error + SignalRecord list" where
  "persist_signals run db [] = Inr []"
| "persist_signals run db (signal # rest) =
     (case one (filter (\<lambda>s. sym_ticker s = ticker signal) (symbols db)) of
        Inl e \<Rightarrow> Inl e
      | Inr symbol \<Rightarrow>
          (case persist_signals run db rest of
             Inl e \<Rightarrow> Inl e
           | Inr rows \<Rightarrow>
               Inr (\<lparr> sr_run_id = run_id run, sr_symbol_id = sym_id symbol,
                      sr_as_of_date = as_of_date run, sr_score = score signal,
                      sr_liquidity = liquidity signal \<rparr> # rows)))"

definition commit_signals :: "Database \<Rightarrow> SignalRecord list \<Rightarrow> error + Database" where
  "commit_signals db rows =
     (if distinct (map (\<lambda>r. (sr_run_id r, sr_symbol_id r, sr_as_of_date r)) (signals db @ rows))
      then Inr (db\<lparr> signals := signals db @ rows \<rparr>)
      else Inl IntegrityError)"

text \<open>
  The query for cached rows: the rows of \<open>signals\<close> for the run and date, in the
  order of their symbol ids, each joined with the rows of \<open>symbols\<close> that carry its
  symbol id; and the \<open>Signal\<close> built from one joined row.
\<close>

definition join_symbols :: "Database \<Rightarrow> SignalRecord \<Rightarrow> (SignalRecord \<times> string) list" where
  "join_symbols db rec =
     map (\<lambda>s. (rec, sym_ticker s)) (filter (\<lambda>s. sym_id s = sr_symbol_id rec) (symbols db))"

definition existing_signals :: "Database \<Rightarrow> RunContext \<Rightarrow> date \<Rightarrow> (SignalRecord \<times> string) list" where
  "existing_signals db run as_of =
     concat
       (map (join_symbols db)
          (sort_key sr_symbol_id
             (filter (\<lambda>rec. sr_run_id rec = run_id run \<and> sr_as_of_date rec = as_of)
                (signals db))))"

definition to_signal :: "SignalRecord \<times> string \<Rightarrow> Signal" where
  "to_signal = (\<lambda>(rec, t). \<lparr> ticker = t, score = sr_score rec, liquidity = sr_liquidity rec \<rparr>)"

definition cached_signals :: "(SignalRecord \<times> string) list \<Rightarrow> Signal list" where
  "cached_signals existing = sort_desc score (map to_signal existing)"

definition generate_signals ::
  "StrategyConfig \<Rightarrow> RunContext \<Rightarrow> Database \<Rightarrow> error + (Signal list \<times> Database)" where
  "generate_signals cfg run db =
     (case signal_loop cfg run db (get_active_symbols db (as_of_date run)) [] of
        Inl e \<Rightarrow> Inl e
      | Inr sigs \<Rightarrow>
          (case persist_signals run db sigs of
             Inl e \<Rightarrow> Inl e
           | Inr rows \<Rightarrow>
               (case commit_signals db rows of
                  Inl e \<Rightarrow> Inl e
                | Inr db' \<Rightarrow> Inr (sort_desc score sigs, db'))))"

text \<open>
  \<open>SignalGenerator.build_signals\<close>: the cached rows when there are any, else the
  computation (\<open>generate_signals\<close> is the rest of the method after the cache check).
\<close>

definition build_signals ::
  "StrategyConfig \<Rightarrow> RunContext \<Rightarrow> Database \<Rightarrow> date \<Rightarrow> error + (Signal list \<times> Database)" where
  "build_signals cfg run db as_of =
     (if existing_signals db run as_of \<noteq> []
      then Inr (cached_signals (existing_signals db run as_of), db)
      else generate_signals cfg run db)"


section \<open>Portfolio builder (portfolio/builder.py)\<close>

record PortfolioPosition =
  pos_ticker :: string
  weight :: real
  liquidity_share :: real

definition liquidity_cap :: "StrategyConfig \<Rightarrow> Signal \<Rightarrow> error + real" where
  "liquidity_cap cfg signal =
     (case dict_item (liquidity_filters cfg) ''max_weight_pct_of_adv'' of
        Inl e \<Rightarrow> Inl e
      | Inr pct \<Rightarrow> Inr (if liquidity signal \<le> 0 then 0 else pct / 100))"

text \<open>
  The first loop of \<open>build\<close>: the provisional weight of each selected signal, capped.
  These are the weights before renormalisation. \<open>n_selected\<close> is \<open>len(selected)\<close>.
\<close>

fun capped_positions ::
  "StrategyConfig \<Rightarrow> real \<Rightarrow> nat \<Rightarrow> Signal list \<Rightarrow> error + PortfolioPosition list" where
  "capped_positions cfg total_score n_selected [] = Inr []"
| "capped_positions cfg total_score n_selected (signal # rest) =
     (case liquidity_cap cfg signal of
        Inl e \<Rightarrow> Inl e
      | Inr cap \<Rightarrow>
          (case capped_positions cfg total_score n_selected rest of
             Inl e \<Rightarrow> Inl e
           | Inr ps \<Rightarrow>
               Inr (\<lparr> pos_ticker = ticker signal,
                      weight = min (if total_score = 0 then 1 / real n_selected
                                    else score signal / total_score) cap,
                      liquidity_share = cap \<rparr> # ps)))"

text \<open>The second loop: every weight over the total, when the total is positive.\<close>

definition renormalize :: "PortfolioPosition list \<Rightarrow> PortfolioPosition list" where
  "renormalize positions =
     (if sum_list (map weight positions) > 0
      then map (\<lambda>pos. pos\<lparr> weight := weight pos / sum_list (map weight positions) \<rparr>) positions
      else positions)"

fun position_rows ::
  "RunContext \<Rightarrow> Database \<Rightarrow> PortfolioPosition list \<Rightarrow> error + PortfolioPositionRecord list" where
  "position_rows run db [] = Inr []"
| "position_rows run db (pos # rest) =
     (case one (filter (\<lambda>s. sym_ticker s = pos_ticker pos) (symbols db)) of
        Inl e \<Rightarrow> Inl e
      | Inr symbol \<Rightarrow>
          (case position_rows run db rest of
             Inl e \<Rightarrow> Inl e
           | Inr rows \<Rightarrow>
               Inr (\<lparr> pp_run_id = run_id run, pp_symbol_id = sym_id symbol,
                      pp_rebalance_date = as_of_date run, pp_weight = weight pos,
                      pp_liquidity_cap = liquidity_share pos \<rparr> # rows)))"

definition persist_positions ::
  "RunContext \<Rightarrow> Database \<Rightarrow> PortfolioPosition list \<Rightarrow> error + Database" where
  "persist_positions run db positions =
     (case position_rows run db positions of
        Inl e \<Rightarrow> Inl e
      | Inr rows \<Rightarrow>
          (if distinct (map (\<lambda>r. (pp_run_id r, pp_symbol_id r, pp_rebalance_date r))
                          (portfolio_positions db @ rows))
           then Inr (db\<lparr> portfolio_positions := portfolio_positions db @ rows \<rparr>)
           else Inl IntegrityError))"

text \<open>\<open>PortfolioBuilder.build\<close>.\<close>

definition build ::
  "StrategyConfig \<Rightarrow> RunContext \<Rightarrow> Database \<Rightarrow> Signal list \<Rightarrow> int \<Rightarrow>
     error + (PortfolioPosition list \<times> Database)" where
  "build cfg run db sigs top_n =
     (if slice_to sigs top_n = [] then Inr ([], db)
      else
        case capped_positions cfg (sum_list (map score (slice_to sigs top_n)))
               (length (slice_to sigs top_n)) (slice_to sigs top_n) of
          Inl e \<Rightarrow> Inl e
        | Inr positions \<Rightarrow>
            (case persist_positions run db (renormalize positions) of
               Inl e \<Rightarrow> Inl e
             | Inr db' \<Rightarrow> Inr (renormalize positions, db')))"


section \<open>Execution model (backtest/execution.py)\<close>

definition apply_costs :: "StrategyConfig \<Rightarrow> real \<Rightarrow> real" where
  "apply_costs cfg gross_return =
     gross_return
     - (dict_get (execution_timing cfg) ''transaction_cost_bps'' 0
        + dict_get (execution_timing cfg) ''slippage_bps'' 0) / 10000"

section \<open>Rebalance schedule (backtest/schedule.py)\<close>

text \<open>
  The calendar behind the ordinals, as Python's \<open>datetime\<close> computes it
  (\<open>_ymd2ord\<close>, \<open>_ord2ymd\<close>, \<open>date.weekday\<close>): ordinal 1 is 0001-01-01, a Monday,
  and weekdays count from Monday = 0.
\<close>

definition is_leap :: "int \<Rightarrow> bool" where
  "is_leap y \<longleftrightarrow> y mod 4 = 0 \<and> (y mod 100 \<noteq> 0 \<or> y mod 400 = 0)"

definition days_in_month_table :: "int list" where
  "days_in_month_table = [31, 28, 31, 30, 31, 30, 31, 31, 30, 31, 30, 31]"

definition days_before_month_table :: "int list" where
  "days_before_month_table = [0, 31, 59, 90, 120, 151, 181, 212, 243, 273, 304, 334]"

definition days_before_year :: "int \<Rightarrow> int" where
  "days_before_year y = (y - 1) * 365 + (y - 1) div 4 - (y - 1) div 100 + (y - 1) div 400"

definition days_before_month :: "int \<Rightarrow> int \<Rightarrow> int" where
  "days_before_month y m =
     days_before_month_table ! nat (m - 1) + (if m > 2 \<and> is_leap y then 1 else 0)"

definition ymd2ord :: "int \<Rightarrow> int \<Rightarrow> int \<Rightarrow> date" where
  "ymd2ord y m d = days_before_year y + days_before_month y m + d"

definition ord2ymd :: "date \<Rightarrow> int \<times> int \<times> int" where
  "ord2ymd ordinal =
     (let n0 = ordinal - 1;
          n400 = n0 div 146097; r400 = n0 mod 146097;
          n100 = r400 div 36524; r100 = r400 mod 36524;
          n4 = r100 div 1461; r4 = r100 mod 1461;
          n1 = r4 div 365; n = r4 mod 365;
          year = n400 * 400 + 1 + n100 * 100 + n4 * 4 + n1
      in if n1 = 4 \<or> n100 = 4 then (year - 1, 12, 31)
         else
           let leapyear = (n1 = 3 \<and> (n4 \<noteq> 24 \<or> n100 = 3));
               month = (n + 50) div 32;
               preceding = days_before_month_table ! nat (month - 1)
                           + (if month > 2 \<and> leapyear then 1 else 0)
           in if preceding > n
              then (year, month - 1,
                    n - (preceding
                         - (days_in_month_table ! nat (month - 2)
                            + (if month - 1 = 2 \<and> leapyear then 1 else 0))) + 1)
              else (year, month, n - preceding + 1))"

definition weekday :: "date \<Rightarrow> int" where
  "weekday d = (d + 6) mod 7"

definition is_month_end :: "date \<Rightarrow> bool" where
  "is_month_end d \<longleftrightarrow> snd (snd (ord2ymd (d + 1))) = 1"

text \<open>
  \<open>pd.date_range(start, end, freq="M")\<close>: the month-end days from \<open>start\<close> to
  \<open>end\<close>, ascending.
\<close>

definition date_range_month_end :: "date \<Rightarrow> date \<Rightarrow> date list" where
  "date_range_month_end start_ts end_ts = filter is_month_end [start_ts..end_ts]"

text \<open>
  The truth value of a pandas index. \<open>Index.__bool__\<close> raises for every index, empty
  or not: "The truth value of a DatetimeIndex is ambiguous. Use a.empty, a.bool(),
  a.item(), a.any() or a.all()."
\<close>

definition index_bool :: "date list \<Rightarrow> error + bool" where
  "index_bool offsets = Inl (ValueError ''The truth value of a DatetimeIndex is ambiguous'')"

text \<open>\<open>Index.drop_duplicates()\<close> keeps the first of equal entries.\<close>

definition drop_duplicates :: "'a list \<Rightarrow> 'a list" where
  "drop_duplicates xs = rev (remdups (rev xs))"

text \<open>
  \<open>month_end_dates\<close>. The condition \<open>not offsets or offsets[-1].date() != end\<close>
  evaluates \<open>not offsets\<close> first.
\<close>

definition month_end_dates :: "date \<Rightarrow> date \<Rightarrow> error + date list" where
  "month_end_dates start end_date =
     (case index_bool (date_range_month_end start end_date) of
        Inl e \<Rightarrow> Inl e
      | Inr truth \<Rightarrow>
          (if \<not> truth then
             Inr (drop_duplicates (date_range_month_end start end_date @ [end_date]))
           else
             case iloc (date_range_month_end start end_date) (- 1) of
               Inl e \<Rightarrow> Inl e
             | Inr last_offset \<Rightarrow>
                 (if last_offset \<noteq> end_date
                  then Inr (drop_duplicates (date_range_month_end start end_date @ [end_date]))
                  else Inr (date_range_month_end start end_date))))"

text \<open>The \<open>while\<close> loop of \<open>next_trading_day\<close>, and the function itself.\<close>

function skip_weekend :: "date \<Rightarrow> date" where
  "skip_weekend next_day =
     (if weekday next_day \<ge> 5 then skip_weekend (next_day + 1) else next_day)"
  by pat_completeness auto
termination
proof (relation "measure (\<lambda>d. nat ((7 - weekday d) mod 7))")
  show "wf (measure (\<lambda>d. nat ((7 - weekday d) mod 7)))" by simp
next
  fix d :: int
  assume a: "5 \<le> weekday d"
  have r: "weekday d < 7" by (simp add: weekday_def)
  have s: "weekday (d + 1) = (weekday d + 1) mod 7"
    by (simp add: weekday_def mod_simps add.commute add.left_commute)
  from a r have "weekday d = 5 \<or> weekday d = 6" by arith
  then have "(7 - weekday (d + 1)) mod 7 < (7 - weekday d) mod 7" using s by auto
  then show "(d + 1, d) \<in> measure (\<lambda>d. nat ((7 - weekday d) mod 7))"
    by simp
qed

declare skip_weekend.simps [simp del]

definition next_trading_day :: "date \<Rightarrow> date" where
  "next_trading_day day = skip_weekend (day + 1)"


section \<open>Backtest runner (backtest/runner.py)\<close>

text \<open>
  \<open>_price_on_or_after\<close> and \<open>_price_on_or_before\<close>: the first row in date order,
  ascending or descending, on the right side of the target.
\<close>

definition price_on_or_after :: "Database \<Rightarrow> int \<Rightarrow> date \<Rightarrow> real option" where
  "price_on_or_after db symbol_id target =
     map_option adj_close
       (first (sort_key price_date
                 (filter (\<lambda>r. pa_symbol_id r = symbol_id \<and> target \<le> price_date r)
                    (prices_adjusted db))))"

definition price_on_or_before :: "Database \<Rightarrow> int \<Rightarrow> date \<Rightarrow> real option" where
  "price_on_or_before db symbol_id target =
     map_option adj_close
       (first (sort_key (\<lambda>r. - price_date r)
                 (filter (\<lambda>r. pa_symbol_id r = symbol_id \<and> price_date r \<le> target)
                    (prices_adjusted db))))"

text \<open>
  The dictionary \<open>symbols\<close> of \<open>_portfolio_return\<close>, read at one ticker: of the
  queried symbols with that ticker, the one stored last.
\<close>

definition symbol_for :: "Database \<Rightarrow> string list \<Rightarrow> string \<Rightarrow> Symbol option" where
  "symbol_for db tickers t =
     first (rev (filter (\<lambda>s. sym_ticker s \<in> set tickers \<and> sym_ticker s = t) (symbols db)))"

text \<open>
  The loop of \<open>_portfolio_return\<close> with its two accumulators \<open>total\<close> and
  \<open>effective_weight\<close> (\<open>tot\<close> is the source's \<open>total\<close>). The prices are
  Python floats, so a zero entry price raises.
\<close>

fun return_loop ::
  "Database \<Rightarrow> string list \<Rightarrow> date \<Rightarrow> date \<Rightarrow> PortfolioPosition list \<Rightarrow> real \<Rightarrow> real \<Rightarrow>
     error + (real \<times> real)" where
  "return_loop db tickers trade_date exit_date [] tot effective_weight =
     Inr (tot, effective_weight)"
| "return_loop db tickers trade_date exit_date (position # rest) tot effective_weight =
     (case symbol_for db tickers (pos_ticker position) of
        None \<Rightarrow> return_loop db tickers trade_date exit_date rest tot effective_weight
      | Some symbol \<Rightarrow>
          (case price_on_or_after db (sym_id symbol) trade_date of
             None \<Rightarrow> return_loop db tickers trade_date exit_date rest tot effective_weight
           | Some entry_price \<Rightarrow>
               (case price_on_or_before db (sym_id symbol) exit_date of
                  None \<Rightarrow> return_loop db tickers trade_date exit_date rest tot effective_weight
                | Some exit_price \<Rightarrow>
                    (case py_div exit_price entry_price of
                       Inl e \<Rightarrow> Inl e
                     | Inr q \<Rightarrow>
                         return_loop db tickers trade_date exit_date rest
                           (tot + weight position * (q - 1))
                           (effective_weight + weight position)))))"

text \<open>
  \<open>portfolio_totals\<close> is \<open>_portfolio_return\<close> up to the end of its loop: the pair
  (\<open>total\<close>, \<open>effective_weight\<close>). \<open>total\<close> is what the method hands to
  \<open>apply_costs\<close>.
\<close>

definition portfolio_totals ::
  "Database \<Rightarrow> PortfolioPosition list \<Rightarrow> date \<Rightarrow> date \<Rightarrow> error + (real \<times> real)" where
  "portfolio_totals db positions trade_date exit_date =
     return_loop db (map pos_ticker positions) trade_date exit_date positions 0 0"

definition portfolio_return ::
  "StrategyConfig \<Rightarrow> Database \<Rightarrow> PortfolioPosition list \<Rightarrow> date \<Rightarrow> date \<Rightarrow> error + real" where
  "portfolio_return cfg db positions trade_date exit_date =
     (case portfolio_totals db positions trade_date exit_date of
        Inl e \<Rightarrow> Inl e
      | Inr (tot, effective_weight) \<Rightarrow>
          (if effective_weight = 0 then Inr 0 else Inr (apply_costs cfg tot)))"

text \<open>
  The loop of \<open>run_backtest\<close> over adjacent schedule dates, from the capital so far:
  the equity points it appends, and the run and database it leaves. The signal
  generator and the builder commit in sessions of their own.
\<close>

fun run_periods ::
  "StrategyConfig \<Rightarrow> RunContext \<Rightarrow> Database \<Rightarrow> real \<Rightarrow> date list \<Rightarrow>
     error + ((date \<times> real) list \<times> RunContext \<times> Database)" where
  "run_periods cfg run db capital (rebalance_date # next_rebalance # rest) =
     (case build_signals cfg (run\<lparr> as_of_date := rebalance_date \<rparr>) db rebalance_date of
        Inl e \<Rightarrow> Inl e
      | Inr (sigs, db1) \<Rightarrow>
          (case build cfg (run\<lparr> as_of_date := rebalance_date \<rparr>) db1 sigs 15 of
             Inl e \<Rightarrow> Inl e
           | Inr (portfolio, db2) \<Rightarrow>
               (if portfolio = [] then
                  (case run_periods cfg (run\<lparr> as_of_date := rebalance_date \<rparr>) db2 capital
                          (next_rebalance # rest) of
                     Inl e \<Rightarrow> Inl e
                   | Inr (points, run', db') \<Rightarrow>
                       Inr ((next_rebalance, capital) # points, run', db'))
                else
                  (case portfolio_return cfg db2 portfolio (next_trading_day rebalance_date)
                          next_rebalance of
                     Inl e \<Rightarrow> Inl e
                   | Inr period_return \<Rightarrow>
                       (case run_periods cfg (run\<lparr> as_of_date := rebalance_date \<rparr>) db2
                               (capital * (1 + period_return)) (next_rebalance # rest) of
                          Inl e \<Rightarrow> Inl e
                        | Inr (points, run', db') \<Rightarrow>
                            Inr ((next_rebalance, capital * (1 + period_return)) # points,
                                 run', db'))))))"
| "run_periods cfg run db capital schedule = Inr ([], run, db)"

record BacktestReport =
  equity_curve :: "(date \<times> real) list"
  summary :: PerformanceSummary

text \<open>
  \<open>run_backtest\<close> from its second statement on, for the schedule that
  \<open>month_end_dates\<close> returned; then \<open>run_backtest\<close>. The rows written by
  \<open>_persist_results\<close> are not modelled.
\<close>

definition run_schedule ::
  "StrategyConfig \<Rightarrow> RunContext \<Rightarrow> Database \<Rightarrow> date \<Rightarrow> date list \<Rightarrow>
     error + (BacktestReport \<times> RunContext \<times> Database)" where
  "run_schedule cfg run db start_date schedule =
     (if length schedule < 2
      then Inl (ValueError ''Backtest requires at least two month-end dates'')
      else
        case run_periods cfg run db 1 schedule of
          Inl e \<Rightarrow> Inl e
        | Inr (points, run', db') \<Rightarrow>
            (case compute_summary (map snd ((start_date, 1) # points)) 12 of
               Inl e \<Rightarrow> Inl e
             | Inr perf \<Rightarrow>
                 Inr (\<lparr> equity_curve = (start_date, 1) # points, summary = perf \<rparr>, run', db')))"

definition run_backtest ::
  "StrategyConfig \<Rightarrow> RunContext \<Rightarrow> Database \<Rightarrow> date \<Rightarrow> date \<Rightarrow>
     error + (BacktestReport \<times> RunContext \<times> Database)" where
  "run_backtest cfg run db start_date end_date =
     (case month_end_dates start_date end_date of
        Inl e \<Rightarrow> Inl e
      | Inr schedule \<Rightarrow> run_schedule cfg run db start_date schedule)"

section \<open>Quantities the statements speak of\<close>

text \<open>
  The entry and exit price \<open>_portfolio_return\<close> finds for a position, \<open>None\<close>
  when the position is dropped (no symbol, no entry price or no exit price), and the
  simple return between them.
\<close>

definition position_prices ::
  "Database \<Rightarrow> string list \<Rightarrow> date \<Rightarrow> date \<Rightarrow> PortfolioPosition \<Rightarrow> (real \<times> real) option" where
  "position_prices db tickers trade_date exit_date pos =
     (case symbol_for db tickers (pos_ticker pos) of
        None \<Rightarrow> None
      | Some symbol \<Rightarrow>
          (case price_on_or_after db (sym_id symbol) trade_date of
             None \<Rightarrow> None
           | Some entry_price \<Rightarrow>
               (case price_on_or_before db (sym_id symbol) exit_date of
                  None \<Rightarrow> None
                | Some exit_price \<Rightarrow> Some (entry_price, exit_price))))"

definition position_return ::
  "Database \<Rightarrow> string list \<Rightarrow> date \<Rightarrow> date \<Rightarrow> PortfolioPosition \<Rightarrow> real" where
  "position_return db tickers trade_date exit_date pos =
     (case position_prices db tickers trade_date exit_date pos of
        None \<Rightarrow> 0
      | Some (entry_price, exit_price) \<Rightarrow> exit_price / entry_price - 1)"

text \<open>The cost per period: \<open>(transaction_cost_bps + slippage_bps) / 10000\<close>.\<close>

definition cost_rate :: "StrategyConfig \<Rightarrow> real" where
  "cost_rate cfg =
     (dict_get (execution_timing cfg) ''transaction_cost_bps'' 0
      + dict_get (execution_timing cfg) ''slippage_bps'' 0) / 10000"

text \<open>The equity points of a run that earns the same net return in every period.\<close>

fun compounded_curve :: "real \<Rightarrow> real \<Rightarrow> date list \<Rightarrow> (date \<times> real) list" where
  "compounded_curve net capital [] = []"
| "compounded_curve net capital (d # ds) =
     (d, capital * (1 + net)) # compounded_curve net (capital * (1 + net)) ds"

text \<open>
  Every period of the schedule builds a portfolio that is not empty, has an entry and
  an exit price for each position, and has weights that do not sum to zero.
\<close>

fun periods_invested :: "StrategyConfig \<Rightarrow> RunContext \<Rightarrow> Database \<Rightarrow> date list \<Rightarrow> bool" where
  "periods_invested cfg run db (rebalance_date # next_rebalance # rest) =
     (case build_signals cfg (run\<lparr> as_of_date := rebalance_date \<rparr>) db rebalance_date of
        Inl e \<Rightarrow> False
      | Inr (sigs, db1) \<Rightarrow>
          (case build cfg (run\<lparr> as_of_date := rebalance_date \<rparr>) db1 sigs 15 of
             Inl e \<Rightarrow> False
           | Inr (portfolio, db2) \<Rightarrow>
               portfolio \<noteq> []
               \<and> list_all (\<lambda>pos. position_prices db2 (map pos_ticker portfolio)
                                    (next_trading_day rebalance_date) next_rebalance pos \<noteq> None)
                     portfolio
               \<and> sum_list (map weight portfolio) \<noteq> 0
               \<and> periods_invested cfg (run\<lparr> as_of_date := rebalance_date \<rparr>) db2
                     (next_rebalance # rest)))"
| "periods_invested cfg run db schedule = True"

section \<open>Example data\<close>

text \<open>
  A small database for the concrete statements: two symbols, both members of the
  universe, with the three default factors and a liquidity metric each, under the run
  \<open>run-1\<close> as of 2024-10-31 (ordinal 739190, a Thursday). The price table is a
  parameter. 739191 is Friday 2024-11-01 and 739220 is 2024-11-30.
\<close>

definition example_run :: RunContext where
  "example_run = \<lparr> run_id = ''run-1'', as_of_date = 739190 \<rparr>"

definition example_db :: "PriceAdjusted list \<Rightarrow> Database" where
  "example_db prices =
     \<lparr> symbols = [\<lparr> sym_id = 1, sym_ticker = ''AAA'' \<rparr>, \<lparr> sym_id = 2, sym_ticker = ''BBB'' \<rparr>],
       universe_membership =
         [\<lparr> um_symbol_id = 1, um_start_date = 738000, um_end_date = None \<rparr>,
          \<lparr> um_symbol_id = 2, um_start_date = 738000, um_end_date = None \<rparr>],
       prices_adjusted = prices,
       factor_values =
         [\<lparr> fv_symbol_id = 1, fv_run_id = ''run-1'', factor_name = ''momentum_12_1'', fv_value_date = 739190,
            fv_value = 1/2 \<rparr>,
          \<lparr> fv_symbol_id = 1, fv_run_id = ''run-1'', factor_name = ''momentum_6_1'', fv_value_date = 739190,
            fv_value = 1/4 \<rparr>,
          \<lparr> fv_symbol_id = 1, fv_run_id = ''run-1'', factor_name = ''realized_vol'', fv_value_date = 739190,
            fv_value = 1/2 \<rparr>,
          \<lparr> fv_symbol_id = 2, fv_run_id = ''run-1'', factor_name = ''momentum_12_1'', fv_value_date = 739190,
            fv_value = 1/4 \<rparr>,
          \<lparr> fv_symbol_id = 2, fv_run_id = ''run-1'', factor_name = ''momentum_6_1'', fv_value_date = 739190,
            fv_value = 1/4 \<rparr>,
          \<lparr> fv_symbol_id = 2, fv_run_id = ''run-1'', factor_name = ''realized_vol'', fv_value_date = 739190,
            fv_value = 1/2 \<rparr>],
       liquidity_metrics =
         [\<lparr> lm_symbol_id = 1, lm_run_id = ''run-1'', median_traded_value_clp = 30000000 \<rparr>,
          \<lparr> lm_symbol_id = 2, lm_run_id = ''run-1'', median_traded_value_clp = 40000000 \<rparr>],
       signals = [],
       portfolio_positions = [] \<rparr>"

text \<open>What the signal generator and the builder make of it under the default strategy.\<close>

definition example_signals :: "Signal list" where
  "example_signals =
     [\<lparr> ticker = ''AAA'', score = 1/5, liquidity = 30000000 \<rparr>,
      \<lparr> ticker = ''BBB'', score = 1/10, liquidity = 40000000 \<rparr>]"

definition example_signal_rows :: "SignalRecord list" where
  "example_signal_rows =
     [\<lparr> sr_run_id = ''run-1'', sr_symbol_id = 1, sr_as_of_date = 739190, sr_score = 1/5, sr_liquidity = 30000000 \<rparr>,
      \<lparr> sr_run_id = ''run-1'', sr_symbol_id = 2, sr_as_of_date = 739190, sr_score = 1/10, sr_liquidity = 40000000 \<rparr>]"

definition example_positions :: "PortfolioPosition list" where
  "example_positions =
     [\<lparr> pos_ticker = ''AAA'', weight = 1/2, liquidity_share = 1/20 \<rparr>,
      \<lparr> pos_ticker = ''BBB'', weight = 1/2, liquidity_share = 1/20 \<rparr>]"

definition example_position_rows :: "PortfolioPositionRecord list" where
  "example_position_rows =
     [\<lparr> pp_run_id = ''run-1'', pp_symbol_id = 1, pp_rebalance_date = 739190, pp_weight = 1/2, pp_liquidity_cap = 1/20 \<rparr>,
      \<lparr> pp_run_id = ''run-1'', pp_symbol_id = 2, pp_rebalance_date = 739190, pp_weight = 1/2, pp_liquidity_cap = 1/20 \<rparr>]"

text \<open>Three price tables: no movement, a rise of 10% and 20%, and (as \<open>[]\<close>) no prices.\<close>

definition flat_prices :: "PriceAdjusted list" where
  "flat_prices =
     [\<lparr> pa_symbol_id = 1, price_date = 739191, adj_close = 100 \<rparr>,
      \<lparr> pa_symbol_id = 1, price_date = 739220, adj_close = 100 \<rparr>,
      \<lparr> pa_symbol_id = 2, price_date = 739191, adj_close = 100 \<rparr>,
      \<lparr> pa_symbol_id = 2, price_date = 739220, adj_close = 100 \<rparr>]"

definition rising_prices :: "PriceAdjusted list" where
  "rising_prices =
     [\<lparr> pa_symbol_id = 1, price_date = 739191, adj_close = 100 \<rparr>,
      \<lparr> pa_symbol_id = 1, price_date = 739220, adj_close = 110 \<rparr>,
      \<lparr> pa_symbol_id = 2, price_date = 739191, adj_close = 50 \<rparr>,
      \<lparr> pa_symbol_id = 2, price_date = 739220, adj_close = 60 \<rparr>]"

text \<open>The weights of the example before renormalisation, and the database after the build.\<close>

definition example_capped :: "PortfolioPosition list" where
  "example_capped =
     [\<lparr> pos_ticker = ''AAA'', weight = 1/20, liquidity_share = 1/20 \<rparr>,
      \<lparr> pos_ticker = ''BBB'', weight = 1/20, liquidity_share = 1/20 \<rparr>]"

definition traded_db :: "PriceAdjusted list \<Rightarrow> Database" where
  "traded_db prices =
     (example_db prices)\<lparr> signals := example_signal_rows,
                           portfolio_positions := example_position_rows \<rparr>"

text \<open>Signals with a negative score, as the negative weight on volatility can produce.\<close>

definition negative_signals :: "Signal list" where
  "negative_signals =
     [\<lparr> ticker = ''AAA'', score = 1, liquidity = 30000000 \<rparr>,
      \<lparr> ticker = ''BBB'', score = - 3, liquidity = 40000000 \<rparr>]"

definition negative_positions :: "PortfolioPosition list" where
  "negative_positions =
     [\<lparr> pos_ticker = ''AAA'', weight = - (1/2), liquidity_share = 1/20 \<rparr>,
      \<lparr> pos_ticker = ''BBB'', weight = 1/20, liquidity_share = 1/20 \<rparr>]"

definition negative_position_rows :: "PortfolioPositionRecord list" where
  "negative_position_rows =
     [\<lparr> pp_run_id = ''run-1'', pp_symbol_id = 1, pp_rebalance_date = 739190, pp_weight = - (1/2), pp_liquidity_cap = 1/20 \<rparr>,
      \<lparr> pp_run_id = ''run-1'', pp_symbol_id = 2, pp_rebalance_date = 739190, pp_weight = 1/20, pp_liquidity_cap = 1/20 \<rparr>]"

text \<open>
  The example with symbol 1 named \<open>ZZZ\<close> and symbol 2 named \<open>AAA\<close>, and the same
  factor values, hence the same score 1/10, for both; the signals of a first and of a
  second call on it, and the rows between them.
\<close>

definition tie_db :: Database where
  "tie_db =
     (example_db [])\<lparr>
       symbols := [\<lparr> sym_id = 1, sym_ticker = ''ZZZ'' \<rparr>, \<lparr> sym_id = 2, sym_ticker = ''AAA'' \<rparr>],
       factor_values :=
         [\<lparr> fv_symbol_id = 1, fv_run_id = ''run-1'', factor_name = ''momentum_12_1'',
            fv_value_date = 739190, fv_value = 1/4 \<rparr>,
          \<lparr> fv_symbol_id = 1, fv_run_id = ''run-1'', factor_name = ''momentum_6_1'',
            fv_value_date = 739190, fv_value = 1/4 \<rparr>,
          \<lparr> fv_symbol_id = 1, fv_run_id = ''run-1'', factor_name = ''realized_vol'',
            fv_value_date = 739190, fv_value = 1/2 \<rparr>,
          \<lparr> fv_symbol_id = 2, fv_run_id = ''run-1'', factor_name = ''momentum_12_1'',
            fv_value_date = 739190, fv_value = 1/4 \<rparr>,
          \<lparr> fv_symbol_id = 2, fv_run_id = ''run-1'', factor_name = ''momentum_6_1'',
            fv_value_date = 739190, fv_value = 1/4 \<rparr>,
          \<lparr> fv_symbol_id = 2, fv_run_id = ''run-1'', factor_name = ''realized_vol'',
            fv_value_date = 739190, fv_value = 1/2 \<rparr>] \<rparr>"

definition tie_first :: "Signal list" where
  "tie_first =
     [\<lparr> ticker = ''AAA'', score = 1/10, liquidity = 40000000 \<rparr>,
      \<lparr> ticker = ''ZZZ'', score = 1/10, liquidity = 30000000 \<rparr>]"

definition tie_second :: "Signal list" where
  "tie_second =
     [\<lparr> ticker = ''ZZZ'', score = 1/10, liquidity = 30000000 \<rparr>,
      \<lparr> ticker = ''AAA'', score = 1/10, liquidity = 40000000 \<rparr>]"

definition tie_rows :: "SignalRecord list" where
  "tie_rows =
     [\<lparr> sr_run_id = ''run-1'', sr_symbol_id = 2, sr_as_of_date = 739190, sr_score = 1/10,
        sr_liquidity = 40000000 \<rparr>,
      \<lparr> sr_run_id = ''run-1'', sr_symbol_id = 1, sr_as_of_date = 739190, sr_score = 1/10,
        sr_liquidity = 30000000 \<rparr>]"

text \<open>The example with no universe membership at all.\<close>

definition empty_universe_db :: Database where
  "empty_universe_db = (example_db flat_prices)\<lparr> universe_membership := [] \<rparr>"

text \<open>
  The example without a liquidity threshold and with a symbol that did not trade: its
  liquidity metric is 0, so its cap is 0.
\<close>

definition illiquid_strategy :: StrategyConfig where
  "illiquid_strategy =
     default_strategy\<lparr> liquidity_filters :=
       [(''median_traded_value_clp'', 0), (''lookback_days'', 90), (''max_weight_pct_of_adv'', 5)] \<rparr>"

definition illiquid_db :: Database where
  "illiquid_db =
     (example_db flat_prices)\<lparr> liquidity_metrics :=
       [\<lparr> lm_symbol_id = 1, lm_run_id = ''run-1'', median_traded_value_clp = 0 \<rparr>] \<rparr>"

definition illiquid_signals :: "Signal list" where
  "illiquid_signals = [\<lparr> ticker = ''AAA'', score = 1/5, liquidity = 0 \<rparr>]"

definition illiquid_positions :: "PortfolioPosition list" where
  "illiquid_positions = [\<lparr> pos_ticker = ''AAA'', weight = 0, liquidity_share = 0 \<rparr>]"

definition illiquid_traded_db :: Database where
  "illiquid_traded_db =
     illiquid_db\<lparr> signals :=
         [\<lparr> sr_run_id = ''run-1'', sr_symbol_id = 1, sr_as_of_date = 739190, sr_score = 1/5,
            sr_liquidity = 0 \<rparr>],
       portfolio_positions :=
         [\<lparr> pp_run_id = ''run-1'', pp_symbol_id = 1, pp_rebalance_date = 739190, pp_weight = 0,
            pp_liquidity_cap = 0 \<rparr>] \<rparr>"

section \<open>Properties of the factor engine\<close>

lemma iloc_from_end:
  "0 < k \<Longrightarrow> k \<le> int (length xs) \<Longrightarrow> iloc xs (- k) = Inr (xs ! (length xs - nat k))"
  by (auto simp: iloc_def nat_diff_distrib' nat_add_distrib)

text \<open>
  Claim C8. For a lookback of at least one observation, the momentum factor emits no
  value exactly when the window holds fewer than \<open>lookback\<close> prices; otherwise it is
  the last price divided by the price \<open>lookback\<close> observations from the end, minus
  one (a zero start price gives numpy's non-finite quotient, never \<open>None\<close>).
\<close>

theorem momentum_spec:
  "0 < lookback \<Longrightarrow>
   momentum df lookback =
     (if int (length df) < lookback then Inr None
      else if df ! (length df - nat lookback) = 0 then Inl NonFiniteFloat
      else Inr (Some (last df / df ! (length df - nat lookback) - 1)))"
proof (cases "int (length df) < lookback")
  case True
  then show ?thesis by (simp add: momentum_def)
next
  case False
  assume pos: "0 < lookback"
  from False pos have ne: "df \<noteq> []" by auto
  have a: "iloc df (- lookback) = Inr (df ! (length df - nat lookback))"
    using pos False by (simp add: iloc_from_end)
  have b: "iloc df (- 1) = Inr (last df)"
    using ne iloc_from_end [of 1 df] by (simp add: last_conv_nth Suc_leI)
  show ?thesis using False by (simp add: momentum_def a b np_div_def)
qed

theorem momentum_spec_witness:
  "(0::int) < 2 \<and> momentum [100, 110, 121] 2 = Inr (Some (1 / 10)) \<and> momentum [100] 2 = Inr None"
proof -
  have h: "(0::int) < 2" by simp
  have "momentum [100, 110, 121] 2 = Inr (Some (1 / 10))"
    using momentum_spec [OF h, of "[100, 110, 121]"] by (simp add: eval_nat_numeral)
  moreover have "momentum [100] 2 = Inr None"
    using momentum_spec [OF h, of "[100]"] by simp
  ultimately show ?thesis by simp
qed

text \<open>
  Claim C7, as stated: the names of the default factor set are the keys of the default
  \<open>factor_weights\<close>. They are not: \<open>max_drawdown\<close> is computed and has no weight.
\<close>

theorem default_factor_names_counterexample:
  "set (map name definitions) \<noteq> set (map fst (factor_weights default_strategy))"
proof -
  have "''max_drawdown'' \<in> set (map name definitions)"
    by (simp add: definitions_def)
  moreover have "''max_drawdown'' \<notin> set (map fst (factor_weights default_strategy))"
    by (simp add: default_factor_weights_def default_strategy_def)
  ultimately show ?thesis by metis
qed

text \<open>
  Claim C7, amended. The default factor set is momentum_12_1 (252 days), momentum_6_1
  (126 days), realized_vol (126 days) and max_drawdown, whose method ignores its
  lookback and runs over the full window; the keys of the default \<open>factor_weights\<close>
  are these names without \<open>max_drawdown\<close>.
\<close>

theorem default_factor_set:
  "map (\<lambda>d. (name d, lookback_days d, factor_method d)) definitions =
     [(''momentum_12_1'', 252, ''momentum''), (''momentum_6_1'', 126, ''momentum''),
      (''realized_vol'', 126, ''volatility''), (''max_drawdown'', 252, ''max_drawdown'')]
   \<and> compute_factor df \<lparr> name = ''max_drawdown'', lookback_days = n, factor_method = ''max_drawdown'' \<rparr>
       = max_drawdown_factor df
   \<and> set (map name definitions)
       = set (map fst (factor_weights default_strategy)) \<union> {''max_drawdown''}
   \<and> ''max_drawdown'' \<notin> set (map fst (factor_weights default_strategy))"
proof -
  have a: "map (\<lambda>d. (name d, lookback_days d, factor_method d)) definitions =
     [(''momentum_12_1'', 252, ''momentum''), (''momentum_6_1'', 126, ''momentum''),
      (''realized_vol'', 126, ''volatility''), (''max_drawdown'', 252, ''max_drawdown'')]"
    by (simp add: definitions_def)
  have b: "compute_factor df \<lparr> name = ''max_drawdown'', lookback_days = n, factor_method = ''max_drawdown'' \<rparr>
       = max_drawdown_factor df"
    by (simp add: compute_factor_def)
  have c: "set (map name definitions)
       = set (map fst (factor_weights default_strategy)) \<union> {''max_drawdown''}"
    by (simp add: definitions_def default_factor_weights_def default_strategy_def insert_commute)
  have d: "''max_drawdown'' \<notin> set (map fst (factor_weights default_strategy))"
    by (simp add: default_factor_weights_def default_strategy_def)
  from a b c d show ?thesis by blast
qed


section \<open>Properties of the performance summary\<close>

text \<open>
  Claim C4, as stated: a curve of exactly one point has \<open>periods = 0\<close>. The summary
  of the one-point curve \<open>[1.0]\<close> reports one period.
\<close>

theorem compute_summary_one_point_counterexample:
  "compute_summary [1] 12 \<noteq> Inr \<lparr> cagr = 0, volatility = 0, max_drawdown = 0, periods = 0 \<rparr>"
  by (simp add: compute_summary_def py_div_def np_div_def cummax_def list_min_def)

text \<open>
  Claim C4, amended. The empty curve gives the all-zero summary with \<open>periods = 0\<close>.
  A curve of exactly one non-zero point gives \<open>cagr = 0\<close>, \<open>volatility = 0\<close>,
  \<open>max_drawdown = 0\<close> and \<open>periods = 1\<close>, the length of the curve.
\<close>

theorem compute_summary_short_curves:
  "x \<noteq> 0 \<Longrightarrow> periods_per_year \<noteq> 0 \<Longrightarrow>
   compute_summary [] periods_per_year
     = Inr \<lparr> cagr = 0, volatility = 0, max_drawdown = 0, periods = 0 \<rparr>
   \<and> compute_summary [x] periods_per_year
     = Inr \<lparr> cagr = 0, volatility = 0, max_drawdown = 0, periods = 1 \<rparr>"
  by (simp add: compute_summary_def py_div_def np_div_def cummax_def list_min_def)

theorem compute_summary_short_curves_witness:
  "(1::real) \<noteq> 0 \<and> (12::int) \<noteq> 0
   \<and> compute_summary [] 12 = Inr \<lparr> cagr = 0, volatility = 0, max_drawdown = 0, periods = 0 \<rparr>
   \<and> compute_summary [1] 12 = Inr \<lparr> cagr = 0, volatility = 0, max_drawdown = 0, periods = 1 \<rparr>"
proof -
  have h1: "(1::real) \<noteq> 0" and h2: "(12::int) \<noteq> 0" by simp_all
  show ?thesis using compute_summary_short_curves [OF h1 h2] by simp
qed


section \<open>Lemmas on the schedule, the builder and the runner\<close>

lemma month_end_dates_raises:
  "month_end_dates start end_date = Inl (ValueError ''The truth value of a DatetimeIndex is ambiguous'')"
  by (simp add: month_end_dates_def index_bool_def)

lemma run_backtest_raises:
  "run_backtest cfg run db start end_date = Inl (ValueError ''The truth value of a DatetimeIndex is ambiguous'')"
  by (simp add: run_backtest_def month_end_dates_raises)

lemma run_schedule_guard:
  "length schedule < 2 \<Longrightarrow>
   run_schedule cfg run db start schedule = Inl (ValueError ''Backtest requires at least two month-end dates'')"
  by (simp add: run_schedule_def)

lemma return_loop_step:
  "return_loop db tk t e (pos # rest) tot ew =
     (case position_prices db tk t e pos of
        None \<Rightarrow> return_loop db tk t e rest tot ew
      | Some (en, ex) \<Rightarrow>
          (case py_div ex en of
             Inl err \<Rightarrow> Inl err
           | Inr q \<Rightarrow> return_loop db tk t e rest (tot + weight pos * (q - 1)) (ew + weight pos)))"
  by (simp add: position_prices_def split: option.splits)

lemma return_loop_dropped:
  "\<forall>pos\<in>set ps. position_prices db tk t e pos = None \<Longrightarrow>
   return_loop db tk t e ps tot ew = Inr (tot, ew)"
proof (induction ps)
  case Nil
  show ?case by simp
next
  case (Cons pos ps)
  then show ?case by (simp only: return_loop_step) simp
qed

lemma return_loop_priced:
  "\<forall>pos\<in>set ps. \<exists>en ex. position_prices db tk t e pos = Some (en, ex) \<and> en \<noteq> 0 \<Longrightarrow>
   return_loop db tk t e ps tot ew =
     Inr (tot + sum_list (map (\<lambda>pos. weight pos * position_return db tk t e pos) ps),
          ew + sum_list (map weight ps))"
proof (induction ps arbitrary: tot ew)
  case Nil
  show ?case by simp
next
  case (Cons pos ps)
  from Cons.prems obtain en ex where
    pp: "position_prices db tk t e pos = Some (en, ex)" and nz: "en \<noteq> 0"
    by auto
  from Cons.prems have rest:
    "\<forall>pos\<in>set ps. \<exists>en ex. position_prices db tk t e pos = Some (en, ex) \<and> en \<noteq> 0"
    by simp
  have "return_loop db tk t e (pos # ps) tot ew =
          return_loop db tk t e ps (tot + weight pos * (ex / en - 1)) (ew + weight pos)"
    by (simp only: return_loop_step) (simp add: pp nz py_div_def)
  also have "\<dots> = Inr (tot + weight pos * (ex / en - 1)
                         + sum_list (map (\<lambda>pos. weight pos * position_return db tk t e pos) ps),
                       ew + weight pos + sum_list (map weight ps))"
    by (rule Cons.IH [OF rest])
  finally show ?case by (simp add: position_return_def pp add.assoc)
qed

lemma sum_list_weights_scaled:
  "sum_list (map weight (map (\<lambda>pos. pos\<lparr> weight := weight pos / c \<rparr>) ps)) = sum_list (map weight ps) / c"
  by (induction ps) (simp_all add: add_divide_distrib)

lemma renormalize_total:
  "0 < sum_list (map weight ps) \<Longrightarrow> sum_list (map weight (renormalize ps)) = 1"
  by (simp add: renormalize_def sum_list_weights_scaled del: map_map)

lemma renormalize_unchanged:
  "sum_list (map weight ps) \<le> 0 \<Longrightarrow> renormalize ps = ps"
  by (simp add: renormalize_def)

lemma renormalize_length: "length (renormalize ps) = length ps"
  by (simp add: renormalize_def)

lemma capped_positions_length:
  "capped_positions cfg ts n sel = Inr ps \<Longrightarrow> length ps = length sel"
  by (induction sel arbitrary: ps) (auto split: sum.splits)

lemma build_result:
  "build cfg run db sigs top_n = Inr (positions, db') \<Longrightarrow>
   \<exists>capped. capped_positions cfg (sum_list (map score (slice_to sigs top_n)))
               (length (slice_to sigs top_n)) (slice_to sigs top_n) = Inr capped
            \<and> positions = renormalize capped"
  by (auto simp: build_def renormalize_def split: if_splits sum.splits)

lemma slice_to_nonempty: "sigs \<noteq> [] \<Longrightarrow> 1 \<le> top_n \<Longrightarrow> slice_to sigs top_n \<noteq> []"
  by (cases sigs) (auto simp: slice_to_def nat_le_iff)


section \<open>Lemmas on the signal cache\<close>

lemma one_singleton: "one rows = Inr r \<Longrightarrow> rows = [r]"
  by (auto simp: one_def split: list.splits)

lemma filter_unique_key:
  "distinct (map f xs) \<Longrightarrow> k \<in> set xs \<Longrightarrow> filter (\<lambda>x. f x = f k) xs = [k]"
proof (induction xs)
  case Nil
  then show ?case by simp
next
  case (Cons a xs)
  show ?case
  proof (cases "a = k")
    case True
    from Cons.prems(1) have "\<forall>x\<in>set xs. f x \<noteq> f a" by (auto simp: image_iff)
    then have "filter (\<lambda>x. f x = f a) xs = []" by (simp add: filter_empty_conv)
    with True show ?thesis by simp
  next
    case False
    with Cons.prems have mem: "k \<in> set xs" by simp
    from Cons.prems(1) mem have "f a \<noteq> f k" by force
    moreover from Cons.prems(1) have "distinct (map f xs)" by simp
    ultimately show ?thesis using Cons.IH mem by simp
  qed
qed

lemma mset_concat_map_cong:
  "mset xs = mset ys \<Longrightarrow> mset (concat (map g xs)) = mset (concat (map g ys))"
proof -
  assume eq: "mset xs = mset ys"
  have "mset (concat (map g zs)) = sum_mset (image_mset (\<lambda>z. mset (g z)) (mset zs))" for zs
    by (induction zs) simp_all
  with eq show ?thesis by simp
qed

lemma no_cached_rows:
  assumes fk: "list_all (\<lambda>r. sr_symbol_id r \<in> sym_id ` set (symbols db)) rows"
    and empty: "concat (map (join_symbols db) (sort_key sr_symbol_id (filter P rows))) = []"
  shows "filter P rows = []"
proof (rule ccontr)
  assume "filter P rows \<noteq> []"
  then obtain rec where rec: "rec \<in> set (filter P rows)" by (cases "filter P rows") auto
  then have "rec \<in> set rows" by simp
  with fk obtain s where "s \<in> set (symbols db)" "sym_id s = sr_symbol_id rec"
    by (auto simp: list_all_iff)
  then have "join_symbols db rec \<noteq> []"
    by (auto simp: join_symbols_def filter_empty_conv)
  moreover from rec have "rec \<in> set (sort_key sr_symbol_id (filter P rows))" by simp
  ultimately show False using empty by auto
qed

lemma persisted_rows_join:
  assumes ids: "distinct (map sym_id (symbols db))"
    and same: "as_of = as_of_date run"
  shows "persist_signals run db raw = Inr rows \<Longrightarrow>
         filter (\<lambda>rec. sr_run_id rec = run_id run \<and> sr_as_of_date rec = as_of) rows = rows
         \<and> map to_signal (concat (map (join_symbols db) rows)) = raw"
proof (induction raw arbitrary: rows)
  case Nil
  then show ?case by simp
next
  case (Cons sg raw)
  from Cons.prems obtain smb rows' where
    smb: "one (filter (\<lambda>s. sym_ticker s = ticker sg) (symbols db)) = Inr smb" and
    rest: "persist_signals run db raw = Inr rows'" and
    rows: "rows = \<lparr> sr_run_id = run_id run, sr_symbol_id = sym_id smb,
                    sr_as_of_date = as_of_date run, sr_score = score sg,
                    sr_liquidity = liquidity sg \<rparr> # rows'"
    by (auto split: sum.splits)
  from smb have "filter (\<lambda>s. sym_ticker s = ticker sg) (symbols db) = [smb]"
    by (rule one_singleton)
  then have "smb \<in> set (filter (\<lambda>s. sym_ticker s = ticker sg) (symbols db))" by simp
  then have mem: "smb \<in> set (symbols db)" and tk: "sym_ticker smb = ticker sg" by simp_all
  have "filter (\<lambda>s. sym_id s = sym_id smb) (symbols db) = [smb]"
    using ids mem by (rule filter_unique_key)
  then have j: "join_symbols db \<lparr> sr_run_id = run_id run, sr_symbol_id = sym_id smb,
                    sr_as_of_date = as_of_date run, sr_score = score sg,
                    sr_liquidity = liquidity sg \<rparr>
              = [(\<lparr> sr_run_id = run_id run, sr_symbol_id = sym_id smb,
                    sr_as_of_date = as_of_date run, sr_score = score sg,
                    sr_liquidity = liquidity sg \<rparr>, ticker sg)]"
    by (simp add: join_symbols_def tk)
  from Cons.IH [OF rest] show ?case
    by (simp add: rows j same to_signal_def)
qed

lemma sort_desc_descending: "sorted_wrt (\<lambda>a b. key b \<le> key a) (sort_desc key xs)"
proof -
  have "sorted (map (\<lambda>x. - key x) (sort_key (\<lambda>x. - key x) xs))" by (rule sorted_sort_key)
  then show ?thesis by (simp add: sort_desc_def sorted_map)
qed

lemma sort_desc_mset: "mset (sort_desc key xs) = mset xs"
  by (simp add: sort_desc_def)

lemma sort_desc_unique:
  assumes perm: "mset xs = mset ys" and keys: "distinct (map key ys)"
  shows "sort_desc key xs = sort_desc key ys"
proof -
  let ?f = "\<lambda>x. - key x"
  let ?zs = "sort_key ?f ys"
  have dy: "distinct (map ?f ys)"
    using keys by (simp add: distinct_map inj_on_def)
  from perm have "mset (map ?f xs) = mset (map ?f ys)" by simp
  with dy have dx: "distinct (map ?f xs)" by (metis mset_eq_imp_distinct_iff)
  have dz: "distinct (map ?f ?zs)"
    using dy by (metis mset_eq_imp_distinct_iff mset_map mset_sort)
  have "sort_key ?f xs = ?zs"
  proof (rule properties_for_sort_key)
    show "mset ?zs = mset xs" using perm by simp
    show "sorted (map ?f ?zs)" by (rule sorted_sort_key)
    fix k assume k: "k \<in> set ?zs"
    then have kx: "k \<in> set xs" using perm by (metis mset_eq_setD set_sort)
    have "filter (\<lambda>x. ?f x = ?f k) ?zs = [k]" using dz k by (rule filter_unique_key)
    moreover have "filter (\<lambda>x. ?f x = ?f k) xs = [k]" using dx kx by (rule filter_unique_key)
    moreover have "filter (\<lambda>x. ?f k = ?f x) ?zs = filter (\<lambda>x. ?f x = ?f k) ?zs"
      by (rule filter_cong) auto
    moreover have "filter (\<lambda>x. ?f k = ?f x) xs = filter (\<lambda>x. ?f x = ?f k) xs"
      by (rule filter_cong) auto
    ultimately show "filter (\<lambda>x. ?f k = ?f x) ?zs = filter (\<lambda>x. ?f k = ?f x) xs"
      by (simp only:)
  qed
  then show ?thesis by (simp add: sort_desc_def)
qed

text \<open>
  Claim C6, amended. On a database that satisfies the schema's key constraints, and for
  the as-of date that is the run's own \<open>as_of_date\<close> (what every caller passes), a
  second call of \<open>build_signals\<close> after a first call that returned also returns, with
  the same signals (same tickers, scores and liquidities, each as often) in descending
  order of score, and leaves the database as the first call left it, so no row is
  added. The sequence is identical when no two signals have the same score; signals of
  equal score may come back in another order. When the first call produced at least one
  signal, the second call finds cached rows and returns them without computing; when it
  produced none, nothing is cached and the second call computes again.
\<close>

theorem build_signals_idempotent:
  assumes wf: "schema_ok db"
    and same: "as_of = as_of_date run"
    and first_call: "build_signals cfg run db as_of = Inr (sigs, db')"
  shows "\<exists>again.
           build_signals cfg run db' as_of = Inr (again, db')
           \<and> mset again = mset sigs
           \<and> sorted_wrt (\<lambda>a b. score b \<le> score a) again
           \<and> (distinct (map score sigs) \<longrightarrow> again = sigs)
           \<and> (sigs \<noteq> [] \<longrightarrow>
                 existing_signals db' run as_of \<noteq> []
                 \<and> again = cached_signals (existing_signals db' run as_of))
           \<and> (sigs = [] \<longrightarrow>
                 existing_signals db' run as_of = []
                 \<and> build_signals cfg run db' as_of = generate_signals cfg run db')"
proof (cases "existing_signals db run as_of = []")
  case False
  with first_call have d: "db' = db"
    and s: "sigs = cached_signals (existing_signals db run as_of)"
    by (auto simp: build_signals_def)
  from False have ne: "sigs \<noteq> []"
    unfolding s cached_signals_def using sort_desc_mset [of score "map to_signal (existing_signals db run as_of)"]
    by (metis map_is_Nil_conv mset_zero_iff)
  have "build_signals cfg run db' as_of = Inr (sigs, db')"
    using first_call d by simp
  moreover have "sorted_wrt (\<lambda>a b. score b \<le> score a) sigs"
    unfolding s cached_signals_def by (rule sort_desc_descending)
  ultimately show ?thesis using ne False d s by auto
next
  case True
  let ?P = "\<lambda>rec. sr_run_id rec = run_id run \<and> sr_as_of_date rec = as_of"
  from True first_call have gen: "generate_signals cfg run db = Inr (sigs, db')"
    by (simp add: build_signals_def)
  then obtain raw rows where
    persisted: "persist_signals run db raw = Inr rows" and
    db': "db' = db\<lparr> signals := signals db @ rows \<rparr>" and
    sigs: "sigs = sort_desc score raw"
    by (auto simp: generate_signals_def commit_signals_def split: sum.splits if_splits)
  from wf have ids: "distinct (map sym_id (symbols db))"
    and fk: "list_all (\<lambda>r. sr_symbol_id r \<in> sym_id ` set (symbols db)) (signals db)"
    by (simp_all add: schema_ok_def)
  from True have "concat (map (join_symbols db) (sort_key sr_symbol_id (filter ?P (signals db)))) = []"
    by (simp add: existing_signals_def)
  with fk have old: "filter ?P (signals db) = []" by (rule no_cached_rows)
  from persisted_rows_join [OF ids same persisted]
  have new: "filter ?P rows = rows"
    and rt: "map to_signal (concat (map (join_symbols db) rows)) = raw"
    by simp_all
  have js: "join_symbols db' = join_symbols db"
    by (rule ext) (simp add: join_symbols_def db')
  have ex': "existing_signals db' run as_of
               = concat (map (join_symbols db) (sort_key sr_symbol_id rows))"
    by (simp add: existing_signals_def js) (simp add: db' old new)
  have "mset (concat (map (join_symbols db) (sort_key sr_symbol_id rows)))
          = mset (concat (map (join_symbols db) rows))"
    by (rule mset_concat_map_cong) simp
  then have "mset (map to_signal (existing_signals db' run as_of))
          = mset (map to_signal (concat (map (join_symbols db) rows)))"
    by (simp add: ex')
  then have perm: "mset (map to_signal (existing_signals db' run as_of)) = mset raw"
    by (simp only: rt)
  let ?again = "cached_signals (existing_signals db' run as_of)"
  have m: "mset ?again = mset sigs"
    using perm by (simp add: cached_signals_def sort_desc_mset sigs del: mset_map)
  have srt: "sorted_wrt (\<lambda>a b. score b \<le> score a) ?again"
    unfolding cached_signals_def by (rule sort_desc_descending)
  have uniq: "distinct (map score sigs) \<longrightarrow> ?again = sigs"
  proof
    assume "distinct (map score sigs)"
    moreover have "mset (map score sigs) = mset (map score raw)"
      by (simp add: sigs sort_desc_mset del: mset_map) (simp add: sort_desc_def)
    ultimately have "distinct (map score raw)" by (metis mset_eq_imp_distinct_iff)
    with perm show "?again = sigs"
      unfolding cached_signals_def sigs by (rule sort_desc_unique)
  qed
  show ?thesis
  proof (cases "raw = []")
    case True
    with persisted have "rows = []" by simp
    with db' have same_db: "db' = db" by simp
    from True sigs have e: "sigs = []" by (simp add: sort_desc_def)
    have ex0: "existing_signals db' run as_of = []"
      using same_db \<open>existing_signals db run as_of = []\<close> by simp
    then have "build_signals cfg run db' as_of = generate_signals cfg run db'"
      by (simp add: build_signals_def)
    moreover have "build_signals cfg run db' as_of = Inr ([], db')"
      using first_call same_db e by simp
    ultimately show ?thesis using e ex0 by simp
  next
    case False
    with perm have ne: "existing_signals db' run as_of \<noteq> []" by auto
    from False sigs have sne: "sigs \<noteq> []"
      using sort_desc_mset [of score raw] by (metis mset_zero_iff)
    from ne have "build_signals cfg run db' as_of = Inr (?again, db')"
      by (simp add: build_signals_def)
    with m srt uniq ne sne show ?thesis by blast
  qed
qed


section \<open>Lemmas on flat prices\<close>

lemma build_signals_prices:
  "build_signals cfg run db as_of = Inr (sigs, db') \<Longrightarrow> prices_adjusted db' = prices_adjusted db"
  by (auto simp: build_signals_def generate_signals_def commit_signals_def
           split: if_splits sum.splits)

lemma build_prices:
  "build cfg run db sigs top_n = Inr (positions, db') \<Longrightarrow> prices_adjusted db' = prices_adjusted db"
  by (auto simp: build_def persist_positions_def split: if_splits sum.splits)

lemma first_member: "first rows = Some r \<Longrightarrow> r \<in> set rows"
  by (auto simp: first_def split: list.splits)

lemma price_on_or_after_flat:
  "list_all (\<lambda>r. adj_close r = p) (prices_adjusted db) \<Longrightarrow>
   price_on_or_after db sid t = Some x \<Longrightarrow> x = p"
  by (auto simp: price_on_or_after_def list_all_iff dest!: first_member)

lemma price_on_or_before_flat:
  "list_all (\<lambda>r. adj_close r = p) (prices_adjusted db) \<Longrightarrow>
   price_on_or_before db sid t = Some x \<Longrightarrow> x = p"
  by (auto simp: price_on_or_before_def list_all_iff dest!: first_member)

lemma position_prices_flat:
  "list_all (\<lambda>r. adj_close r = p) (prices_adjusted db) \<Longrightarrow>
   position_prices db tk t e pos = Some (en, ex) \<Longrightarrow> en = p \<and> ex = p"
  by (auto simp: position_prices_def split: option.splits
           dest: price_on_or_after_flat price_on_or_before_flat)

lemma portfolio_totals_flat:
  assumes flat: "list_all (\<lambda>r. adj_close r = p) (prices_adjusted db)" and nz: "p \<noteq> 0"
    and priced: "list_all (\<lambda>pos. position_prices db (map pos_ticker ps) t e pos \<noteq> None) ps"
  shows "portfolio_totals db ps t e = Inr (0, sum_list (map weight ps))"
proof -
  have each: "\<forall>pos\<in>set ps. position_prices db (map pos_ticker ps) t e pos = Some (p, p)"
  proof
    fix pos assume "pos \<in> set ps"
    with priced obtain en ex where
      pp: "position_prices db (map pos_ticker ps) t e pos = Some (en, ex)"
      by (auto simp: list_all_iff)
    with position_prices_flat [OF flat pp] show
      "position_prices db (map pos_ticker ps) t e pos = Some (p, p)" by simp
  qed
  then have "\<forall>pos\<in>set ps. \<exists>en ex.
      position_prices db (map pos_ticker ps) t e pos = Some (en, ex) \<and> en \<noteq> 0"
    using nz by simp
  then have "portfolio_totals db ps t e =
      Inr (0 + sum_list (map (\<lambda>pos. weight pos * position_return db (map pos_ticker ps) t e pos) ps),
           0 + sum_list (map weight ps))"
    unfolding portfolio_totals_def by (rule return_loop_priced)
  moreover have "map (\<lambda>pos. weight pos * position_return db (map pos_ticker ps) t e pos) ps
                 = map (\<lambda>pos. 0) ps"
    using each nz by (simp add: position_return_def)
  ultimately show ?thesis by simp
qed

lemma portfolio_return_flat:
  assumes "list_all (\<lambda>r. adj_close r = p) (prices_adjusted db)" and "p \<noteq> 0"
    and "list_all (\<lambda>pos. position_prices db (map pos_ticker ps) t e pos \<noteq> None) ps"
    and "sum_list (map weight ps) \<noteq> 0"
  shows "portfolio_return cfg db ps t e = Inr (- cost_rate cfg)"
  using assms(4) portfolio_totals_flat [OF assms(1-3)]
  by (simp add: portfolio_return_def apply_costs_def cost_rate_def)

lemma run_periods_flat:
  assumes nz: "p \<noteq> 0"
  shows "list_all (\<lambda>r. adj_close r = p) (prices_adjusted db) \<Longrightarrow>
         periods_invested cfg run db (d # ds) \<Longrightarrow>
         \<exists>run' db'. run_periods cfg run db capital (d # ds)
                      = Inr (compounded_curve (- cost_rate cfg) capital ds, run', db')"
proof (induction ds arbitrary: d run db capital)
  case Nil
  show ?case by simp
next
  case (Cons d' ds)
  let ?run = "run\<lparr> as_of_date := d \<rparr>"
  obtain sigs db1 where s: "build_signals cfg ?run db d = Inr (sigs, db1)"
    using Cons.prems(2) by (cases "build_signals cfg ?run db d") auto
  obtain portfolio db2 where b: "build cfg ?run db1 sigs 15 = Inr (portfolio, db2)"
    using Cons.prems(2) s by (cases "build cfg ?run db1 sigs 15") auto
  from Cons.prems(2) have
    ne: "portfolio \<noteq> []" and
    priced: "list_all (\<lambda>pos. position_prices db2 (map pos_ticker portfolio)
                                    (next_trading_day d) d' pos \<noteq> None) portfolio" and
    w: "sum_list (map weight portfolio) \<noteq> 0" and
    rest: "periods_invested cfg ?run db2 (d' # ds)"
    by (simp_all add: s b)
  have "prices_adjusted db2 = prices_adjusted db"
    using build_signals_prices [OF s] build_prices [OF b] by simp
  with Cons.prems(1) have flat2: "list_all (\<lambda>r. adj_close r = p) (prices_adjusted db2)" by simp
  have r: "portfolio_return cfg db2 portfolio (next_trading_day d) d' = Inr (- cost_rate cfg)"
    using flat2 nz priced w by (rule portfolio_return_flat)
  from Cons.IH [OF flat2 rest, of "capital * (1 + - cost_rate cfg)"] obtain run' db' where
    "run_periods cfg ?run db2 (capital * (1 + - cost_rate cfg)) (d' # ds)
       = Inr (compounded_curve (- cost_rate cfg) (capital * (1 + - cost_rate cfg)) ds, run', db')"
    by blast
  then show ?case using s b ne r by simp
qed

lemma compounded_curve_bounds:
  "0 < capital \<Longrightarrow> - 1 < net \<Longrightarrow> net < 0 \<Longrightarrow>
   \<forall>x\<in>set (map snd (compounded_curve net capital ds)). 0 < x \<and> x < capital"
proof (induction ds arbitrary: capital)
  case Nil
  show ?case by simp
next
  case (Cons d ds)
  have pos: "0 < capital * (1 + net)" using Cons.prems by simp
  have less: "capital * (1 + net) < capital"
    using Cons.prems by (simp add: mult_less_cancel_left2)
  from Cons.IH [OF pos Cons.prems(2,3)] less pos show ?case by fastforce
qed

lemma compounded_curve_decreasing:
  "0 < capital \<Longrightarrow> - 1 < net \<Longrightarrow> net < 0 \<Longrightarrow>
   sorted_wrt (>) (capital # map snd (compounded_curve net capital ds))"
proof (induction ds arbitrary: capital)
  case Nil
  show ?case by simp
next
  case (Cons d ds)
  have pos: "0 < capital * (1 + net)" using Cons.prems by simp
  from Cons.IH [OF pos Cons.prems(2,3)]
  have "sorted_wrt (>) (map snd (compounded_curve net capital (d # ds)))" by simp
  moreover from compounded_curve_bounds [OF Cons.prems, of "d # ds"]
  have "\<forall>x\<in>set (map snd (compounded_curve net capital (d # ds))). x < capital" by blast
  ultimately show ?case by (simp del: compounded_curve.simps)
qed

text \<open>
  Claim C5, amended. Over prices that all equal one non-zero value, when every period
  builds a non-empty portfolio with an entry and an exit price for every position and
  with weights that do not sum to zero, the loop of the backtest returns, and the net
  return of every period is \<open>-(transaction_cost_bps + slippage_bps) / 10000\<close>: the
  equity points are the capital compounded at that rate. When the cost per period lies
  strictly between 0 and 1 and the starting capital is positive, the equity curve is
  strictly decreasing.
\<close>

theorem flat_prices_backtest:
  assumes "list_all (\<lambda>r. adj_close r = p) (prices_adjusted db)" and "p \<noteq> 0"
    and "periods_invested cfg run db schedule"
  shows "(\<exists>run' db'. run_periods cfg run db capital schedule
            = Inr (compounded_curve (- cost_rate cfg) capital (tl schedule), run', db'))
         \<and> (0 < capital \<and> 0 < cost_rate cfg \<and> cost_rate cfg < 1 \<longrightarrow>
              sorted_wrt (>) (capital # map snd (compounded_curve (- cost_rate cfg) capital (tl schedule))))"
proof (cases schedule)
  case Nil
  then show ?thesis by simp
next
  case (Cons d ds)
  with assms run_periods_flat [of p db cfg run d ds capital]
  have "\<exists>run' db'. run_periods cfg run db capital schedule
            = Inr (compounded_curve (- cost_rate cfg) capital (tl schedule), run', db')"
    by simp
  moreover have "0 < capital \<and> 0 < cost_rate cfg \<and> cost_rate cfg < 1 \<longrightarrow>
      sorted_wrt (>) (capital # map snd (compounded_curve (- cost_rate cfg) capital (tl schedule)))"
    using compounded_curve_decreasing [of capital "- cost_rate cfg" "tl schedule"] by simp
  ultimately show ?thesis by blast
qed


section \<open>The example, evaluated\<close>

lemmas signal_defs =
  build_signals_def existing_signals_def join_symbols_def to_signal_def generate_signals_def
  get_active_symbols_def passes_liquidity_def latest_liquidity_def get_factor_def
  compose_score_def commit_signals_def cached_signals_def first_def one_def dict_item_def
  dict_get_def sort_desc_def default_strategy_def default_factor_weights_def

lemmas builder_defs =
  build_def slice_to_def liquidity_cap_def renormalize_def persist_positions_def one_def
  dict_item_def default_strategy_def

lemmas runner_defs =
  position_prices_def symbol_for_def price_on_or_after_def price_on_or_before_def first_def

lemma example_build_signals:
  "build_signals default_strategy example_run (example_db prices) 739190
     = Inr (example_signals, (example_db prices)\<lparr> signals := example_signal_rows \<rparr>)"
  by (simp add: signal_defs example_run_def example_db_def example_signals_def
        example_signal_rows_def)

lemma example_build:
  "build default_strategy example_run ((example_db prices)\<lparr> signals := example_signal_rows \<rparr>)
     example_signals 15
     = Inr (example_positions,
            (example_db prices)\<lparr> signals := example_signal_rows,
                                  portfolio_positions := example_position_rows \<rparr>)"
  by (simp add: builder_defs example_run_def example_db_def example_signals_def
        example_positions_def example_position_rows_def)

lemma example_run_as_of: "example_run\<lparr> as_of_date := 739190 \<rparr> = example_run"
  by (simp add: example_run_def)

lemma example_trade_date: "next_trading_day 739190 = 739191"
  by (simp add: next_trading_day_def skip_weekend.simps weekday_def)

lemma example_build_traded:
  "build default_strategy example_run ((example_db prices)\<lparr> signals := example_signal_rows \<rparr>)
     example_signals 15 = Inr (example_positions, traded_db prices)"
  by (simp add: example_build traded_db_def)

lemma rising_position_prices:
  "position_prices (traded_db rising_prices) [''AAA'', ''BBB''] 739191 739220
     \<lparr> pos_ticker = ''AAA'', weight = w, liquidity_share = c \<rparr> = Some (100, 110)"
  "position_prices (traded_db rising_prices) [''AAA'', ''BBB''] 739191 739220
     \<lparr> pos_ticker = ''BBB'', weight = w, liquidity_share = c \<rparr> = Some (50, 60)"
  by (simp_all add: runner_defs traded_db_def example_db_def rising_prices_def)

lemma flat_position_prices:
  "position_prices (traded_db flat_prices) [''AAA'', ''BBB''] 739191 739220
     \<lparr> pos_ticker = ''AAA'', weight = w, liquidity_share = c \<rparr> = Some (100, 100)"
  "position_prices (traded_db flat_prices) [''AAA'', ''BBB''] 739191 739220
     \<lparr> pos_ticker = ''BBB'', weight = w, liquidity_share = c \<rparr> = Some (100, 100)"
  by (simp_all add: runner_defs traded_db_def example_db_def flat_prices_def)

lemma no_position_prices:
  "position_prices (traded_db []) tickers t e pos = None"
  by (simp add: runner_defs traded_db_def example_db_def split: option.splits)

lemma example_capped_positions:
  "capped_positions default_strategy (sum_list (map score (slice_to example_signals 15)))
     (length (slice_to example_signals 15)) (slice_to example_signals 15) = Inr example_capped"
  by (simp add: builder_defs example_signals_def example_capped_def)

lemma example_periods_invested:
  "periods_invested default_strategy example_run (example_db flat_prices) [739190, 739220]"
  by (simp add: example_run_as_of example_build_signals example_build_traded
        example_trade_date example_positions_def flat_position_prices)

lemma default_cost_rate: "cost_rate default_strategy = 1 / 400"
  by (simp add: cost_rate_def dict_get_def default_strategy_def)

lemma illiquid_build_signals:
  "build_signals illiquid_strategy example_run illiquid_db 739190
     = Inr (illiquid_signals,
            illiquid_db\<lparr> signals :=
              [\<lparr> sr_run_id = ''run-1'', sr_symbol_id = 1, sr_as_of_date = 739190,
                 sr_score = 1/5, sr_liquidity = 0 \<rparr>] \<rparr>)"
  by (simp add: signal_defs illiquid_strategy_def illiquid_db_def illiquid_signals_def
        example_run_def example_db_def)

lemma illiquid_build:
  "build illiquid_strategy example_run
     (illiquid_db\<lparr> signals :=
        [\<lparr> sr_run_id = ''run-1'', sr_symbol_id = 1, sr_as_of_date = 739190,
           sr_score = 1/5, sr_liquidity = 0 \<rparr>] \<rparr>)
     illiquid_signals 15
     = Inr (illiquid_positions, illiquid_traded_db)"
  by (simp add: builder_defs illiquid_strategy_def illiquid_db_def illiquid_signals_def
        illiquid_positions_def illiquid_traded_db_def example_run_def example_db_def)

lemma illiquid_position_prices:
  "position_prices illiquid_traded_db [''AAA''] 739191 739220
     \<lparr> pos_ticker = ''AAA'', weight = 0, liquidity_share = 0 \<rparr> = Some (100, 100)"
  by (simp add: runner_defs illiquid_traded_db_def illiquid_db_def example_db_def flat_prices_def)


section \<open>Claims on the schedule\<close>

lemma example_dates:
  "ymd2ord 2024 10 31 = 739190" "ymd2ord 2024 11 30 = 739220" "ymd2ord 2024 12 31 = 739251"
  by (simp_all add: ymd2ord_def days_before_year_def days_before_month_def
        days_before_month_table_def is_leap_def)

lemma example_month_ends: "date_range_month_end 739190 739251 = [739190, 739220, 739251]"
  by code_simp

text \<open>
  Claim C3. The claim is that \<open>month_end_dates\<close> returns the month-end list. For
  2024-10-31 to 2024-12-31, the dates of the repository's own end-to-end test,
  \<open>pd.date_range\<close> yields the three month ends, and the function then raises on
  \<open>not offsets\<close> instead of returning them. It does so for every pair of dates
  (\<open>month_end_dates_raises\<close>).
\<close>

theorem month_end_dates_truth_value:
  "date_range_month_end (ymd2ord 2024 10 31) (ymd2ord 2024 12 31)
     = [ymd2ord 2024 10 31, ymd2ord 2024 11 30, ymd2ord 2024 12 31]
   \<and> month_end_dates (ymd2ord 2024 10 31) (ymd2ord 2024 12 31)
       = Inl (ValueError ''The truth value of a DatetimeIndex is ambiguous'')"
  by (simp add: example_dates example_month_ends month_end_dates_raises)

text \<open>
  Claim C9. The guard itself is as the claim says (\<open>run_schedule_guard\<close>), but
  \<open>run_backtest\<close> does not reach it: for 2024-10-31 to 2024-12-31, whose schedule
  has three dates, it raises the \<open>ValueError\<close> of \<open>month_end_dates\<close>, as it does
  for every pair of dates (\<open>run_backtest_raises\<close>).
\<close>

theorem run_backtest_truth_value:
  "length (date_range_month_end (ymd2ord 2024 10 31) (ymd2ord 2024 12 31)) = 3
   \<and> run_backtest cfg run db (ymd2ord 2024 10 31) (ymd2ord 2024 12 31)
       = Inl (ValueError ''The truth value of a DatetimeIndex is ambiguous'')"
  by (simp add: example_dates example_month_ends run_backtest_raises)


section \<open>Claims on the portfolio builder\<close>

text \<open>
  Claim C2, as stated: for non-empty signals the final weights sum to 1. With the
  scores 1 and -3 the capped weights are -1/2 and 1/20, their sum is not positive, the
  builder skips the renormalisation and returns them: the weights sum to -9/20.
\<close>

theorem build_weights_sum_counterexample:
  "negative_signals \<noteq> []
   \<and> build default_strategy example_run (example_db flat_prices) negative_signals 15
       = Inr (negative_positions,
              (example_db flat_prices)\<lparr> portfolio_positions := negative_position_rows \<rparr>)
   \<and> sum_list (map weight negative_positions) = - (9 / 20)"
  by (simp add: builder_defs example_run_def example_db_def negative_signals_def
        negative_positions_def negative_position_rows_def)

text \<open>
  Claim C2, amended. For a non-empty list of signals and \<open>top_n \<ge> 1\<close>, the positions
  that \<open>build\<close> returns are not empty; their weights sum to 1 when the sum of the
  capped weights is positive, and they are the capped weights, unchanged, when that sum
  is zero or negative.
\<close>

theorem build_weights:
  assumes "sigs \<noteq> []" and "1 \<le> top_n"
    and built: "build cfg run db sigs top_n = Inr (positions, db')"
  shows "positions \<noteq> []
         \<and> (\<exists>capped.
               capped_positions cfg (sum_list (map score (slice_to sigs top_n)))
                 (length (slice_to sigs top_n)) (slice_to sigs top_n) = Inr capped
               \<and> (0 < sum_list (map weight capped) \<longrightarrow> sum_list (map weight positions) = 1)
               \<and> (sum_list (map weight capped) \<le> 0 \<longrightarrow> positions = capped))"
proof -
  from build_result [OF built] obtain capped where
    c: "capped_positions cfg (sum_list (map score (slice_to sigs top_n)))
          (length (slice_to sigs top_n)) (slice_to sigs top_n) = Inr capped" and
    p: "positions = renormalize capped"
    by blast
  from assms(1,2) have "slice_to sigs top_n \<noteq> []" by (rule slice_to_nonempty)
  with capped_positions_length [OF c] have "capped \<noteq> []" by auto
  then have "positions \<noteq> []" using renormalize_length [of capped] p by auto
  moreover have "0 < sum_list (map weight capped) \<longrightarrow> sum_list (map weight positions) = 1"
    using p by (simp add: renormalize_total)
  moreover have "sum_list (map weight capped) \<le> 0 \<longrightarrow> positions = capped"
    using p by (simp add: renormalize_unchanged)
  ultimately show ?thesis using c by blast
qed

theorem build_weights_witness:
  "example_signals \<noteq> [] \<and> (1::int) \<le> 15
   \<and> build default_strategy example_run ((example_db flat_prices)\<lparr> signals := example_signal_rows \<rparr>)
       example_signals 15 = Inr (example_positions, traded_db flat_prices)
   \<and> example_positions \<noteq> []
   \<and> sum_list (map weight example_positions) = 1"
proof -
  have h1: "example_signals \<noteq> []" by (simp add: example_signals_def)
  have h2: "(1::int) \<le> 15" by simp
  have h3: "build default_strategy example_run
              ((example_db flat_prices)\<lparr> signals := example_signal_rows \<rparr>)
              example_signals 15 = Inr (example_positions, traded_db flat_prices)"
    by (rule example_build_traded)
  from build_weights [OF h1 h2 h3] example_capped_positions
  have "example_positions \<noteq> []" and "sum_list (map weight example_positions) = 1"
    by (simp_all add: example_capped_def)
  with h1 h2 h3 show ?thesis by blast
qed


section \<open>Claims on the period return\<close>

text \<open>
  Claim C1, as stated: the gross return handed to the execution model uses the weights
  before the builder's renormalisation. In the example the capped weights are 1/20 and
  1/20, the returns are 10% and 20%, and the claim's sum is 3/200; the runner computes
  3/20, from the renormalised weights 1/2 and 1/2.
\<close>

theorem unrenormalized_weights_counterexample:
  "build default_strategy example_run ((example_db rising_prices)\<lparr> signals := example_signal_rows \<rparr>)
     example_signals 15 = Inr (example_positions, traded_db rising_prices)
   \<and> capped_positions default_strategy (sum_list (map score (slice_to example_signals 15)))
       (length (slice_to example_signals 15)) (slice_to example_signals 15) = Inr example_capped
   \<and> list_all (\<lambda>pos. position_prices (traded_db rising_prices) (map pos_ticker example_positions)
                       739191 739220 pos \<noteq> None) example_positions
   \<and> portfolio_totals (traded_db rising_prices) example_positions 739191 739220
       = Inr (3 / 20, 1)
   \<and> sum_list (map (\<lambda>pos. weight pos
         * position_return (traded_db rising_prices) (map pos_ticker example_capped)
             739191 739220 pos) example_capped) = 3 / 200"
proof -
  have "\<forall>pos\<in>set example_positions. \<exists>en ex.
        position_prices (traded_db rising_prices) (map pos_ticker example_positions)
          739191 739220 pos = Some (en, ex) \<and> en \<noteq> 0"
    by (simp add: example_positions_def rising_position_prices)
  from return_loop_priced [OF this, of 0 0]
  have "portfolio_totals (traded_db rising_prices) example_positions 739191 739220
       = Inr (3 / 20, 1)"
    by (simp add: portfolio_totals_def example_positions_def position_return_def
          rising_position_prices)
  moreover have "list_all (\<lambda>pos. position_prices (traded_db rising_prices)
       (map pos_ticker example_positions) 739191 739220 pos \<noteq> None) example_positions"
    by (simp add: example_positions_def rising_position_prices)
  moreover have "sum_list (map (\<lambda>pos. weight pos
         * position_return (traded_db rising_prices) (map pos_ticker example_capped)
             739191 739220 pos) example_capped) = 3 / 200"
    by (simp add: example_capped_def position_return_def rising_position_prices)
  ultimately show ?thesis
    using example_build_traded [of rising_prices] example_capped_positions by blast
qed

text \<open>
  Claim C1, amended. For the positions that \<open>build\<close> returned, when each has an
  entry price (not zero) and an exit price, the gross return of the period is the sum
  of \<open>weight * (exit_price / entry_price - 1)\<close> over the positions with the weights
  as the builder returned them, that is after its renormalisation; the runner does not
  renormalise again. That sum is what \<open>apply_costs\<close> receives when the weights do
  not sum to zero; when they sum to zero \<open>apply_costs\<close> is not called and the period
  return is 0.
\<close>

theorem portfolio_gross_return:
  assumes built: "build cfg run db0 sigs top_n = Inr (positions, db)"
    and priced: "\<forall>pos\<in>set positions. \<exists>en ex.
        position_prices db (map pos_ticker positions) trade_date exit_date pos = Some (en, ex)
        \<and> en \<noteq> 0"
  shows "(\<exists>capped.
            capped_positions cfg (sum_list (map score (slice_to sigs top_n)))
              (length (slice_to sigs top_n)) (slice_to sigs top_n) = Inr capped
            \<and> positions = renormalize capped)
         \<and> portfolio_totals db positions trade_date exit_date
             = Inr (sum_list (map (\<lambda>pos. weight pos
                       * position_return db (map pos_ticker positions) trade_date exit_date pos)
                     positions),
                    sum_list (map weight positions))
         \<and> (sum_list (map weight positions) \<noteq> 0 \<longrightarrow>
             portfolio_return cfg db positions trade_date exit_date
               = Inr (apply_costs cfg
                   (sum_list (map (\<lambda>pos. weight pos
                       * position_return db (map pos_ticker positions) trade_date exit_date pos)
                     positions))))
         \<and> (sum_list (map weight positions) = 0 \<longrightarrow>
             portfolio_return cfg db positions trade_date exit_date = Inr 0)"
proof -
  have tot: "portfolio_totals db positions trade_date exit_date
             = Inr (sum_list (map (\<lambda>pos. weight pos
                       * position_return db (map pos_ticker positions) trade_date exit_date pos)
                     positions),
                    sum_list (map weight positions))"
    using return_loop_priced [OF priced, of 0 0] by (simp add: portfolio_totals_def)
  then have "sum_list (map weight positions) \<noteq> 0 \<longrightarrow>
             portfolio_return cfg db positions trade_date exit_date
               = Inr (apply_costs cfg
                   (sum_list (map (\<lambda>pos. weight pos
                       * position_return db (map pos_ticker positions) trade_date exit_date pos)
                     positions)))"
    by (simp add: portfolio_return_def)
  moreover from tot have "sum_list (map weight positions) = 0 \<longrightarrow>
             portfolio_return cfg db positions trade_date exit_date = Inr 0"
    by (simp add: portfolio_return_def)
  ultimately show ?thesis using tot build_result [OF built] by blast
qed

theorem portfolio_gross_return_witness:
  "build default_strategy example_run ((example_db rising_prices)\<lparr> signals := example_signal_rows \<rparr>)
     example_signals 15 = Inr (example_positions, traded_db rising_prices)
   \<and> list_all (\<lambda>pos. \<exists>en ex.
        position_prices (traded_db rising_prices) (map pos_ticker example_positions)
          739191 739220 pos = Some (en, ex) \<and> en \<noteq> 0) example_positions
   \<and> portfolio_totals (traded_db rising_prices) example_positions 739191 739220
       = Inr (3 / 20, 1)
   \<and> portfolio_return default_strategy (traded_db rising_prices) example_positions
        739191 739220 = Inr (59 / 400)"
proof -
  have h1: "build default_strategy example_run
              ((example_db rising_prices)\<lparr> signals := example_signal_rows \<rparr>)
              example_signals 15 = Inr (example_positions, traded_db rising_prices)"
    by (rule example_build_traded)
  have h2: "\<forall>pos\<in>set example_positions. \<exists>en ex.
        position_prices (traded_db rising_prices) (map pos_ticker example_positions)
          739191 739220 pos = Some (en, ex) \<and> en \<noteq> 0"
    by (simp add: example_positions_def rising_position_prices)
  from portfolio_gross_return [OF h1 h2]
  have "portfolio_totals (traded_db rising_prices) example_positions 739191 739220
          = Inr (3 / 20, 1)"
    and "portfolio_return default_strategy (traded_db rising_prices) example_positions
          739191 739220 = Inr (59 / 400)"
    by (simp_all add: example_positions_def position_return_def rising_position_prices
          apply_costs_def dict_get_def default_strategy_def)
  with h1 h2 show ?thesis by (simp add: list_all_iff)
qed

text \<open>
  Claim C10. When the portfolio of a period is not empty and every position is dropped
  for want of a symbol, an entry price or an exit price, the period return is 0, with
  no cost subtracted, and the period appends the capital unchanged.
\<close>

theorem dropped_positions_carry_capital:
  assumes s: "build_signals cfg (run\<lparr> as_of_date := d \<rparr>) db d = Inr (sigs, db1)"
    and b: "build cfg (run\<lparr> as_of_date := d \<rparr>) db1 sigs 15 = Inr (portfolio, db2)"
    and ne: "portfolio \<noteq> []"
    and dropped: "\<forall>pos\<in>set portfolio.
        position_prices db2 (map pos_ticker portfolio) (next_trading_day d) d' pos = None"
  shows "portfolio_return cfg db2 portfolio (next_trading_day d) d' = Inr 0
         \<and> run_periods cfg run db capital [d, d']
             = Inr ([(d', capital)], run\<lparr> as_of_date := d \<rparr>, db2)"
proof -
  have "portfolio_totals db2 portfolio (next_trading_day d) d' = Inr (0, 0)"
    unfolding portfolio_totals_def using dropped by (rule return_loop_dropped)
  then have r: "portfolio_return cfg db2 portfolio (next_trading_day d) d' = Inr 0"
    by (simp add: portfolio_return_def)
  with s b ne show ?thesis by simp
qed

theorem dropped_positions_carry_capital_witness:
  "build_signals default_strategy (example_run\<lparr> as_of_date := 739190 \<rparr>) (example_db []) 739190
     = Inr (example_signals, (example_db [])\<lparr> signals := example_signal_rows \<rparr>)
   \<and> build default_strategy (example_run\<lparr> as_of_date := 739190 \<rparr>)
       ((example_db [])\<lparr> signals := example_signal_rows \<rparr>) example_signals 15
       = Inr (example_positions, traded_db [])
   \<and> example_positions \<noteq> []
   \<and> list_all (\<lambda>pos.
        position_prices (traded_db []) (map pos_ticker example_positions)
          (next_trading_day 739190) 739220 pos = None) example_positions
   \<and> portfolio_return default_strategy (traded_db []) example_positions
       (next_trading_day 739190) 739220 = Inr 0
   \<and> run_periods default_strategy example_run (example_db []) 1 [739190, 739220]
       = Inr ([(739220, 1)], example_run, traded_db [])"
proof -
  have h1: "build_signals default_strategy (example_run\<lparr> as_of_date := 739190 \<rparr>)
              (example_db []) 739190
            = Inr (example_signals, (example_db [])\<lparr> signals := example_signal_rows \<rparr>)"
    by (simp add: example_run_as_of example_build_signals)
  have h2: "build default_strategy (example_run\<lparr> as_of_date := 739190 \<rparr>)
              ((example_db [])\<lparr> signals := example_signal_rows \<rparr>) example_signals 15
            = Inr (example_positions, traded_db [])"
    by (simp add: example_run_as_of example_build_traded)
  have h3: "example_positions \<noteq> []" by (simp add: example_positions_def)
  have h4: "\<forall>pos\<in>set example_positions.
        position_prices (traded_db []) (map pos_ticker example_positions)
          (next_trading_day 739190) 739220 pos = None"
    by (simp add: no_position_prices)
  from dropped_positions_carry_capital [OF h1 h2 h3 h4, of 1]
  have "portfolio_return default_strategy (traded_db []) example_positions
          (next_trading_day 739190) 739220 = Inr 0"
    and "run_periods default_strategy example_run (example_db []) 1 [739190, 739220]
          = Inr ([(739220, 1)], example_run, traded_db [])"
    by (simp_all add: example_run_as_of)
  with h1 h2 h3 h4 show ?thesis by (simp add: list_all_iff)
qed


section \<open>Claims on the signal cache and on flat prices, at the example\<close>

theorem build_signals_idempotent_witness:
  "schema_ok (example_db flat_prices) \<and> 739190 = as_of_date example_run
   \<and> build_signals default_strategy example_run (example_db flat_prices) 739190
       = Inr (example_signals, (example_db flat_prices)\<lparr> signals := example_signal_rows \<rparr>)
   \<and> build_signals default_strategy example_run
         ((example_db flat_prices)\<lparr> signals := example_signal_rows \<rparr>) 739190
       = Inr (example_signals, (example_db flat_prices)\<lparr> signals := example_signal_rows \<rparr>)
   \<and> existing_signals ((example_db flat_prices)\<lparr> signals := example_signal_rows \<rparr>)
         example_run 739190 \<noteq> []"
proof -
  have h1: "schema_ok (example_db flat_prices)"
    by (simp add: schema_ok_def example_db_def)
  have h2: "739190 = as_of_date example_run" by (simp add: example_run_def)
  have h3: "build_signals default_strategy example_run (example_db flat_prices) 739190
       = Inr (example_signals, (example_db flat_prices)\<lparr> signals := example_signal_rows \<rparr>)"
    by (rule example_build_signals)
  have ne: "example_signals \<noteq> []" and d: "distinct (map score example_signals)"
    by (simp_all add: example_signals_def)
  from build_signals_idempotent [OF h1 h2 h3] ne d h1 h2 h3 show ?thesis by auto
qed

text \<open>
  Claim C6, as stated, fails in three places. With an empty universe the first call
  returns no signal and stores no row, so the second call finds nothing cached and
  computes again. For an as-of date other than the run's own, the rows are stored
  under the run's date, the second call finds nothing under the date it was given,
  computes again and fails on the unique key of \<open>signals\<close>. And with two signals of
  equal score the first call returns them in the order of their tickers, \<open>AAA\<close>
  before \<open>ZZZ\<close>, and the second in the order of their symbol ids, \<open>ZZZ\<close> before
  \<open>AAA\<close>.
\<close>

theorem build_signals_cache_counterexample:
  "build_signals default_strategy example_run empty_universe_db 739190 = Inr ([], empty_universe_db)
   \<and> existing_signals empty_universe_db example_run 739190 = []
   \<and> build_signals default_strategy example_run empty_universe_db 739190
       = generate_signals default_strategy example_run empty_universe_db
   \<and> build_signals default_strategy example_run (example_db flat_prices) 739220
       = Inr (example_signals, (example_db flat_prices)\<lparr> signals := example_signal_rows \<rparr>)
   \<and> build_signals default_strategy example_run
         ((example_db flat_prices)\<lparr> signals := example_signal_rows \<rparr>) 739220
       = Inl IntegrityError
   \<and> build_signals default_strategy example_run tie_db 739190
       = Inr (tie_first, tie_db\<lparr> signals := tie_rows \<rparr>)
   \<and> build_signals default_strategy example_run (tie_db\<lparr> signals := tie_rows \<rparr>) 739190
       = Inr (tie_second, tie_db\<lparr> signals := tie_rows \<rparr>)
   \<and> tie_second \<noteq> tie_first"
proof -
  have a: "existing_signals empty_universe_db example_run 739190 = []"
    by (simp add: existing_signals_def empty_universe_db_def example_db_def)
  have b: "build_signals default_strategy example_run empty_universe_db 739190
           = generate_signals default_strategy example_run empty_universe_db"
    by (simp add: build_signals_def a)
  have c: "generate_signals default_strategy example_run empty_universe_db
           = Inr ([], empty_universe_db)"
    by (simp add: generate_signals_def get_active_symbols_def commit_signals_def sort_desc_def
          empty_universe_db_def example_db_def)
  have d: "build_signals default_strategy example_run (example_db flat_prices) 739220
       = Inr (example_signals, (example_db flat_prices)\<lparr> signals := example_signal_rows \<rparr>)"
    by (simp add: signal_defs example_run_def example_db_def example_signals_def
          example_signal_rows_def)
  have e: "build_signals default_strategy example_run
         ((example_db flat_prices)\<lparr> signals := example_signal_rows \<rparr>) 739220
       = Inl IntegrityError"
    by (simp add: signal_defs example_run_def example_db_def example_signals_def
          example_signal_rows_def)
  have f: "build_signals default_strategy example_run tie_db 739190
       = Inr (tie_first, tie_db\<lparr> signals := tie_rows \<rparr>)"
    by (simp add: signal_defs example_run_def tie_db_def example_db_def tie_first_def
          tie_rows_def)
  have g: "build_signals default_strategy example_run (tie_db\<lparr> signals := tie_rows \<rparr>) 739190
       = Inr (tie_second, tie_db\<lparr> signals := tie_rows \<rparr>)"
    by (simp add: signal_defs example_run_def tie_db_def example_db_def tie_second_def
          tie_rows_def)
  have h: "tie_second \<noteq> tie_first" by (simp add: tie_first_def tie_second_def)
  from a b c d e f g h show ?thesis by simp
qed

theorem flat_prices_backtest_witness:
  "list_all (\<lambda>r. adj_close r = 100) (prices_adjusted (example_db flat_prices))
   \<and> (100::real) \<noteq> 0
   \<and> periods_invested default_strategy example_run (example_db flat_prices) [739190, 739220]
   \<and> (\<exists>run' db'. run_periods default_strategy example_run (example_db flat_prices) 1
                    [739190, 739220] = Inr ([(739220, 399 / 400)], run', db'))
   \<and> sorted_wrt (>) [1, 399 / 400 :: real]"
proof -
  have h1: "list_all (\<lambda>r. adj_close r = 100) (prices_adjusted (example_db flat_prices))"
    by (simp add: example_db_def flat_prices_def)
  have h2: "(100::real) \<noteq> 0" by simp
  have h3: "periods_invested default_strategy example_run (example_db flat_prices)
              [739190, 739220]"
    by (rule example_periods_invested)
  from flat_prices_backtest [OF h1 h2 h3, of 1]
  have "\<exists>run' db'. run_periods default_strategy example_run (example_db flat_prices) 1
                    [739190, 739220] = Inr ([(739220, 399 / 400)], run', db')"
    and "sorted_wrt (>) [1, 399 / 400 :: real]"
    by (simp_all add: default_cost_rate)
  with h1 h2 h3 show ?thesis by blast
qed

text \<open>
  Claim C5, as stated: with flat prices and a non-empty, fully priced portfolio the net
  return is minus the cost. Without a liquidity threshold, a symbol with liquidity 0 is
  selected and capped at 0; the portfolio holds it at weight 0, the effective weight is
  0, and the period returns 0 although the cost is 25 basis points: the capital stays
  at 1 and the curve does not decrease.
\<close>

theorem flat_prices_zero_weight_counterexample:
  "list_all (\<lambda>r. adj_close r = 100) (prices_adjusted illiquid_db)
   \<and> build illiquid_strategy example_run
       (illiquid_db\<lparr> signals :=
          [\<lparr> sr_run_id = ''run-1'', sr_symbol_id = 1, sr_as_of_date = 739190,
             sr_score = 1/5, sr_liquidity = 0 \<rparr>] \<rparr>)
       illiquid_signals 15
       = Inr (illiquid_positions, illiquid_traded_db)
   \<and> illiquid_positions \<noteq> []
   \<and> list_all (\<lambda>pos. position_prices illiquid_traded_db (map pos_ticker illiquid_positions)
                       739191 739220 pos = Some (100, 100)) illiquid_positions
   \<and> portfolio_return illiquid_strategy illiquid_traded_db illiquid_positions 739191 739220
       = Inr 0
   \<and> - cost_rate illiquid_strategy = - (1 / 400)
   \<and> run_periods illiquid_strategy example_run illiquid_db 1 [739190, 739220]
       = Inr ([(739220, 1)], example_run, illiquid_traded_db)"
proof -
  have a: "list_all (\<lambda>r. adj_close r = 100) (prices_adjusted illiquid_db)"
    by (simp add: illiquid_db_def example_db_def flat_prices_def)
  have b: "illiquid_positions \<noteq> []" by (simp add: illiquid_positions_def)
  have c: "list_all (\<lambda>pos. position_prices illiquid_traded_db (map pos_ticker illiquid_positions)
                       739191 739220 pos = Some (100, 100)) illiquid_positions"
    by (simp add: illiquid_positions_def illiquid_position_prices)
  have d: "portfolio_return illiquid_strategy illiquid_traded_db illiquid_positions 739191 739220
       = Inr 0"
    by (simp add: portfolio_return_def portfolio_totals_def return_loop_step
          illiquid_positions_def illiquid_position_prices py_div_def
          del: return_loop.simps(2))
  have e: "- cost_rate illiquid_strategy = - (1 / 400)"
    by (simp add: cost_rate_def dict_get_def illiquid_strategy_def default_strategy_def)
  have f: "run_periods illiquid_strategy example_run illiquid_db 1 [739190, 739220]
       = Inr ([(739220, 1)], example_run, illiquid_traded_db)"
    using d b
    by (simp add: example_run_as_of illiquid_build_signals illiquid_build example_trade_date)
  from a b c d e f illiquid_build show ?thesis by blast
qed

end
